theory Spec2Isabelle
  imports Complex_Main "HOL-Library.Log_Nat"
begin

section \<open>Data model (api_models.py)\<close>

datatype JobStatus = PENDING | RUNNING | COMPLETED | FAILED | SKIPPED

record JobStatusResponse =
  job_id :: string
  status :: JobStatus
  progress :: int
  current_track :: "string option"
  total_tracks :: int
  completed_tracks :: int
  failed_tracks :: int
  skipped_tracks :: int
  error_message :: "string option"
  download_path :: "string option"
  downloaded_files :: "string list"

record TrackInfo =
  track_id :: string
  title :: string
  artists :: string
  album :: string
  track_number :: int
  duration_ms :: int
  isrc :: string
  image_url :: string
  release_date :: string

section \<open>Python float arithmetic of the progress formula\<close>

text \<open>
  \<^verbatim>\<open>int(((completed + failed + skipped) / job.total_tracks) * 100)\<close> is computed by
  Python in IEEE 754 binary64: \<^verbatim>\<open>int / int\<close> is the exact quotient rounded once to the
  nearest double (ties to even), the product with \<^verbatim>\<open>100\<close> is rounded again, and
  \<^verbatim>\<open>int()\<close> truncates towards zero. A double is modelled by the rational it denotes;
  \<open>double_round\<close> rounds a rational to 53 significant bits, with the subnormal quantum
  \<open>2^-1074\<close> as the finest grid, and a rounded value of magnitude \<open>2^1024\<close> or more
  (\<open>overflows\<close>) is the overflow that Python reports as OverflowError (at the division,
  or at \<^verbatim>\<open>int(inf)\<close>).
\<close>

datatype py_error = ZeroDivisionError | OverflowError | OSError string

definition pow2 :: "int \<Rightarrow> rat" where
  "pow2 k = (if 0 \<le> k then 2 ^ nat k else 1 / 2 ^ nat (- k))"

text \<open>\<open>ilog2 q\<close> is the binary exponent of a positive rational: \<open>2^e \<le> q < 2^(e+1)\<close>.\<close>

definition ilog2 :: "rat \<Rightarrow> int" where
  "ilog2 q = (case quotient_of q of (a, b) \<Rightarrow>
     (let k = bitlen a - bitlen b in if pow2 k \<le> q then k else k - 1))"

definition round_half_even :: "rat \<Rightarrow> int" where
  "round_half_even x = (let f = \<lfloor>x\<rfloor>; r = x - of_int f in
     if r < 1 / 2 then f else if 1 / 2 < r then f + 1 else if even f then f else f + 1)"

definition double_round :: "rat \<Rightarrow> rat" where
  "double_round q = (if q = 0 then 0 else
     (let a = \<bar>q\<bar>; p = max (ilog2 a - 52) (- 1074); m = round_half_even (a / pow2 p)
      in sgn q * of_int m * pow2 p))"

definition py_trunc :: "rat \<Rightarrow> int" where
  "py_trunc x = (if 0 \<le> x then \<lfloor>x\<rfloor> else \<lceil>x\<rceil>)"

definition overflows :: "rat \<Rightarrow> bool" where
  "overflows x = (x \<noteq> 0 \<and> 1024 \<le> ilog2 \<bar>x\<bar>)"

definition progress_percent :: "int \<Rightarrow> int \<Rightarrow> py_error + int" where
  "progress_percent n tot =
     (if tot = 0 then Inl ZeroDivisionError
      else (let d = double_round (of_int n / of_int tot) in
        if overflows d then Inl OverflowError
        else (let x = double_round (d * 100) in
          if overflows x then Inl OverflowError else Inr (py_trunc x))))"

section \<open>Job registry (job_manager.py)\<close>

text \<open>
  The registry's dict \<^verbatim>\<open>jobs\<close> maps a job id to a \<^emph>\<open>reference\<close> to a mutable
  \<^verbatim>\<open>JobStatusResponse\<close> object; the objects live in \<open>store\<close>, and \<open>next_ref\<close> is the
  next unused reference. \<^verbatim>\<open>job_tasks\<close> maps a job id to a reference to an
  \<^verbatim>\<open>asyncio.Task\<close>, of which the registry uses \<^verbatim>\<open>done()\<close> and \<^verbatim>\<open>cancel()\<close>.
\<close>

record Task =
  finished :: bool
  must_cancel :: bool

record JobManager =
  store :: "nat \<Rightarrow> JobStatusResponse"
  next_ref :: nat
  jobs :: "string \<rightharpoonup> nat"
  job_tasks :: "string \<rightharpoonup> nat"
  tasks :: "nat \<Rightarrow> Task"

definition blank_job :: JobStatusResponse where
  "blank_job = \<lparr>job_id = [], status = PENDING, progress = 0, current_track = None,
     total_tracks = 0, completed_tracks = 0, failed_tracks = 0, skipped_tracks = 0,
     error_message = None, download_path = None, downloaded_files = []\<rparr>"

definition init_manager :: JobManager where
  "init_manager = \<lparr>store = (\<lambda>_. blank_job), next_ref = 0, jobs = Map.empty,
     job_tasks = Map.empty, tasks = (\<lambda>_. \<lparr>finished = False, must_cancel = False\<rparr>)\<rparr>"

text \<open>\<^verbatim>\<open>create_job\<close>: the identifier drawn by \<^verbatim>\<open>uuid.uuid4()\<close> is the argument \<open>jid\<close>.\<close>

definition create_job :: "JobManager \<Rightarrow> string \<Rightarrow> int \<Rightarrow> string \<Rightarrow> string \<times> JobManager" where
  "create_job m jid tot path =
     (jid, m\<lparr>store := (store m)(next_ref m :=
                \<lparr>job_id = jid, status = PENDING, progress = 0, current_track = None,
                 total_tracks = tot, completed_tracks = 0, failed_tracks = 0,
                 skipped_tracks = 0, error_message = None, download_path = Some path,
                 downloaded_files = []\<rparr>),
              next_ref := Suc (next_ref m),
              jobs := (jobs m)(jid \<mapsto> next_ref m)\<rparr>)"

text \<open>\<^verbatim>\<open>if error_message:\<close> is Python truthiness: \<^verbatim>\<open>None\<close> and the empty string are falsy.\<close>

definition update_job_status :: "JobManager \<Rightarrow> string \<Rightarrow> JobStatus \<Rightarrow> string option \<Rightarrow> JobManager" where
  "update_job_status m jid st err =
     (case jobs m jid of
        None \<Rightarrow> m
      | Some r \<Rightarrow>
          (let j = (store m r)\<lparr>status := st\<rparr>;
               j' = (case err of
                       None \<Rightarrow> j
                     | Some e \<Rightarrow> if e = [] then j else j\<lparr>error_message := Some e\<rparr>)
           in m\<lparr>store := (store m)(r := j')\<rparr>))"

text \<open>
  \<^verbatim>\<open>update_job_progress\<close> assigns the label and the three counts before it computes the
  progress, so an exception of the progress formula leaves them assigned. The result is
  the exception raised, if any, and the registry.
\<close>

definition update_job_progress ::
  "JobManager \<Rightarrow> string \<Rightarrow> string \<Rightarrow> int \<Rightarrow> int \<Rightarrow> int \<Rightarrow> py_error option \<times> JobManager" where
  "update_job_progress m jid label c f s =
     (case jobs m jid of
        None \<Rightarrow> (None, m)
      | Some r \<Rightarrow>
          (let j = (store m r)\<lparr>current_track := Some label, completed_tracks := c,
                                failed_tracks := f, skipped_tracks := s\<rparr>
           in case progress_percent (c + f + s) (total_tracks j) of
                Inl e \<Rightarrow> (Some e, m\<lparr>store := (store m)(r := j)\<rparr>)
              | Inr p \<Rightarrow> (None, m\<lparr>store := (store m)(r := j\<lparr>progress := p\<rparr>)\<rparr>)))"

definition add_downloaded_file :: "JobManager \<Rightarrow> string \<Rightarrow> string \<Rightarrow> JobManager" where
  "add_downloaded_file m jid path =
     (case jobs m jid of
        None \<Rightarrow> m
      | Some r \<Rightarrow> m\<lparr>store := (store m)(r :=
          (store m r)\<lparr>downloaded_files := downloaded_files (store m r) @ [path]\<rparr>)\<rparr>)"

definition get_job_status :: "JobManager \<Rightarrow> string \<Rightarrow> JobStatusResponse option" where
  "get_job_status m jid = map_option (store m) (jobs m jid)"

text \<open>
  \<^verbatim>\<open>get_all_jobs\<close> returns \<^verbatim>\<open>self.jobs.copy()\<close>: a new dict with the same keys, bound to
  the same objects. \<open>read_snapshot m' snap\<close> is what a holder of the returned dict reads
  through it when the registry has moved on to \<open>m'\<close>.
\<close>

definition get_all_jobs :: "JobManager \<Rightarrow> (string \<rightharpoonup> nat)" where
  "get_all_jobs m = jobs m"

definition read_snapshot :: "JobManager \<Rightarrow> (string \<rightharpoonup> nat) \<Rightarrow> string \<Rightarrow> JobStatusResponse option" where
  "read_snapshot m' snap jid = map_option (store m') (snap jid)"

definition register_task :: "JobManager \<Rightarrow> string \<Rightarrow> nat \<Rightarrow> JobManager" where
  "register_task m jid t = m\<lparr>job_tasks := (job_tasks m)(jid \<mapsto> t)\<rparr>"

text \<open>\<^verbatim>\<open>Task.cancel()\<close> on a task that is not done records the cancellation request.\<close>

definition cancel_job :: "JobManager \<Rightarrow> string \<Rightarrow> bool \<times> JobManager" where
  "cancel_job m jid =
     (case job_tasks m jid of
        None \<Rightarrow> (False, m)
      | Some t \<Rightarrow>
          if \<not> finished (tasks m t)
          then (True, update_job_status
                        (m\<lparr>tasks := (tasks m)(t := (tasks m t)\<lparr>must_cancel := True\<rparr>)\<rparr>)
                        jid FAILED (Some ''Job cancelled by user''))
          else (False, m))"

section \<open>Validity checker (download_service.py, is_valid_existing_file)\<close>

text \<open>
  A file is described by what the code observes of it: what \<^verbatim>\<open>os.path.getsize\<close> and
  \<^verbatim>\<open>MP3(filepath)\<close> with \<^verbatim>\<open>audio.info.length\<close> do on it. Either may raise.
  The file system maps a path to the file it holds.
\<close>

datatype 'a io = Raises string | Returns 'a

record disk_file =
  getsize :: "int io"
  mp3_length :: "rat io"

type_synonym filesystem = "string \<rightharpoonup> disk_file"

text \<open>
  \<^verbatim>\<open>str.lower\<close> on the ASCII letters; no other character lowers to one of the
  characters of \<^verbatim>\<open>.flac\<close>, so the test below is the source's.
\<close>

definition lower_char :: "char \<Rightarrow> char" where
  "lower_char c = (if 65 \<le> (of_char c :: nat) \<and> (of_char c :: nat) \<le> 90
                   then char_of (of_char c + (32 :: nat)) else c)"

definition lower :: "string \<Rightarrow> string" where
  "lower s = map lower_char s"

definition endswith :: "string \<Rightarrow> string \<Rightarrow> bool" where
  "endswith s suf = (length suf \<le> length s \<and> drop (length s - length suf) s = suf)"

definition is_valid_existing_file :: "filesystem \<Rightarrow> string \<Rightarrow> bool" where
  "is_valid_existing_file fs filepath =
     (case fs filepath of
        None \<Rightarrow> False
      | Some f \<Rightarrow>
          (case getsize f of
             Raises e \<Rightarrow> False
           | Returns file_size \<Rightarrow>
               if file_size < 100000 then False
               else (case mp3_length f of
                       Returns len \<Rightarrow> if 0 < len then True else False
                     | Raises e \<Rightarrow>
                         if endswith (lower filepath) ''.flac'' \<and> 500000 < file_size
                         then True else False)))"

section \<open>Track fetcher (download_service.py, download_track_async)\<close>

subsection \<open>File names\<close>

text \<open>
  \<^verbatim>\<open>re.sub(r'[<>:"/\\|?*]', ...)\<close>: the double quote becomes an apostrophe, the other
  eight characters an underscore.
\<close>

definition sanitize :: "string \<Rightarrow> string" where
  "sanitize s = map (\<lambda>c. if c = CHR 0x22 then CHR 0x27
                          else if c \<in> set [CHR ''<'', CHR ''>'', CHR '':'', CHR ''/'', CHR 0x5C,
                                            CHR ''|'', CHR ''?'', CHR ''*'']
                               then CHR ''_'' else c) s"

definition get_formatted_filename :: "TrackInfo \<Rightarrow> string \<Rightarrow> string \<Rightarrow> string" where
  "get_formatted_filename track extension filename_format =
     sanitize (if filename_format = ''artist_title''
               then artists track @ '' - '' @ title track @ extension
               else if filename_format = ''title_only''
               then title track @ extension
               else title track @ '' - '' @ artists track @ extension)"

fun digits :: "nat \<Rightarrow> string" where
  "digits n = (if n < 10 then [char_of (48 + n)]
               else digits (n div 10) @ [char_of (48 + n mod 10)])"

declare digits.simps [simp del]

definition str_int :: "int \<Rightarrow> string" where
  "str_int n = (if n < 0 then CHR ''-'' # digits (nat (- n)) else digits (nat n))"

text \<open>The format \<^verbatim>\<open>{track.track_number:02d}\<close>: zero-padded to width two, sign included.\<close>

definition format_02d :: "int \<Rightarrow> string" where
  "format_02d n = (if 0 \<le> n \<and> n < 10 then CHR ''0'' # str_int n else str_int n)"

text \<open>\<^verbatim>\<open>os.path.join\<close> of two components (posixpath).\<close>

definition path_join :: "string \<Rightarrow> string \<Rightarrow> string" where
  "path_join a b = (if b \<noteq> [] \<and> hd b = CHR ''/'' then b
                    else if a = [] \<or> last a = CHR ''/'' then a @ b
                    else a @ ''/'' @ b)"

text \<open>Lines 68-73 and 166-169: the destination path for a given extension.\<close>

definition track_filepath :: "TrackInfo \<Rightarrow> string \<Rightarrow> string \<Rightarrow> string \<Rightarrow> bool \<Rightarrow> string" where
  "track_filepath track outpath extension filename_format use_track_numbers =
     path_join outpath
       ((if use_track_numbers then format_02d (track_number track) @ '' - '' else [])
        @ get_formatted_filename track extension filename_format)"

fun has_double_slash :: "string \<Rightarrow> bool" where
  "has_double_slash (a # b # cs) = ((a = CHR ''/'' \<and> b = CHR ''/'') \<or> has_double_slash (b # cs))"
| "has_double_slash cs = False"

subsection \<open>The provider, the disk and their failures\<close>

text \<open>
  What the fetcher receives from outside is a parameter: the answers of the provider
  to the three kinds of request, the failures of \<^verbatim>\<open>os.remove\<close>, of the write and of
  \<^verbatim>\<open>os.rename\<close> (the message of the exception; a failed write also says what it leaves
  at the path), the file that \<^verbatim>\<open>embed_metadata\<close> leaves in place of the one it tags, the
  failure of \<^verbatim>\<open>mkdir\<close>, and the error-message translator \<^verbatim>\<open>format_error_for_display\<close>
  (status code, response text, error message, context). The world is the disk and the
  list of requests sent so far.
\<close>

datatype request = PostDownload string bool | PostIsFlacAvailable string | GetAudio string

record api_json =
  js_success :: bool
  js_error :: "string option"
  js_message :: "string option"
  js_link :: "string option"
  js_flacAvailable :: bool

record response =
  resp_status :: int
  resp_text :: string
  resp_json :: "api_json io"

record audio_response =
  audio_status :: int
  audio_content :: disk_file

record environment =
  translate :: "int option \<Rightarrow> string \<Rightarrow> string \<Rightarrow> string \<Rightarrow> string"
  post_download :: "string \<Rightarrow> bool \<Rightarrow> response io"
  post_isFlacAvailable :: "string \<Rightarrow> response io"
  get_audio :: "string \<Rightarrow> audio_response io"
  remove_fault :: "string \<Rightarrow> string option"
  write_fault :: "string \<Rightarrow> (string \<times> disk_file option) option"
  rename_fault :: "string \<Rightarrow> string option"
  embed_metadata :: "TrackInfo \<Rightarrow> disk_file \<Rightarrow> disk_file"
  mkdir_fault :: "string \<Rightarrow> string option"

record world =
  files :: filesystem
  calls :: "request list"

definition truthy :: "string option \<Rightarrow> bool" where
  "truthy v = (case v of None \<Rightarrow> False | Some x \<Rightarrow> x \<noteq> [])"

subsection \<open>Lines 86-123: the download request\<close>

definition request_link :: "environment \<Rightarrow> TrackInfo \<Rightarrow> world \<Rightarrow> (string + string) \<times> world" where
  "request_link env track w =
     (let w1 = w\<lparr>calls := calls w @ [PostDownload (track_id track) False]\<rparr> in
      case post_download env (track_id track) False of
        Raises e \<Rightarrow> (Inl (translate env None [] e ''Track Download''), w1)
      | Returns response \<Rightarrow>
          if resp_status response \<noteq> 200
          then (Inl (translate env (Some (resp_status response)) (resp_text response) []
                       ''Download API Request''), w1)
          else (case resp_json response of
                  Raises e \<Rightarrow> (Inl (translate env None [] e ''Track Download''), w1)
                | Returns data \<Rightarrow>
                    if \<not> js_success data
                    then (Inl (case js_error data of
                                 Some e \<Rightarrow> e
                               | None \<Rightarrow> (case js_message data of
                                            Some msg \<Rightarrow> msg
                                          | None \<Rightarrow> ''Unknown error'')), w1)
                    else if \<not> truthy (js_link data)
                    then (Inl ''No download link provided by API'', w1)
                    else (Inr (the (js_link data)), w1)))"

subsection \<open>Lines 125-163: the FLAC negotiation, whose exceptions are swallowed\<close>

definition negotiate_flac ::
  "environment \<Rightarrow> TrackInfo \<Rightarrow> bool \<Rightarrow> string \<Rightarrow> world \<Rightarrow> (string \<times> string) \<times> world" where
  "negotiate_flac env track prefer_flac download_url w =
     (if \<not> prefer_flac then ((download_url, ''.mp3''), w)
      else
        (let w1 = w\<lparr>calls := calls w @ [PostIsFlacAvailable (track_id track)]\<rparr> in
         case post_isFlacAvailable env (track_id track) of
           Raises e \<Rightarrow> ((download_url, ''.mp3''), w1)
         | Returns flac_response \<Rightarrow>
             if resp_status flac_response \<noteq> 200 then ((download_url, ''.mp3''), w1)
             else (case resp_json flac_response of
                     Raises e \<Rightarrow> ((download_url, ''.mp3''), w1)
                   | Returns flac_data \<Rightarrow>
                       if \<not> js_flacAvailable flac_data then ((download_url, ''.mp3''), w1)
                       else
                         (let w2 = w1\<lparr>calls := calls w1 @ [PostDownload (track_id track) True]\<rparr> in
                          case post_download env (track_id track) True of
                            Raises e \<Rightarrow> ((download_url, ''.mp3''), w2)
                          | Returns r \<Rightarrow>
                              if resp_status r \<noteq> 200 then ((download_url, ''.mp3''), w2)
                              else (case resp_json r of
                                      Raises e \<Rightarrow> ((download_url, ''.mp3''), w2)
                                    | Returns d \<Rightarrow>
                                        if js_success d \<and> truthy (js_link d)
                                        then ((the (js_link d), ''.flac''), w2)
                                        else ((download_url, ''.mp3''), w2))))))"

subsection \<open>Lines 187-211: temporary file, validity check, promotion\<close>

text \<open>Lines 206-210: the handler removes the temporary file if it can.\<close>

definition discard_temp :: "environment \<Rightarrow> string \<Rightarrow> filesystem \<Rightarrow> filesystem" where
  "discard_temp env temp_filepath fs =
     (if fs temp_filepath \<noteq> None \<and> remove_fault env temp_filepath = None
      then fs(temp_filepath := None) else fs)"

definition save_audio ::
  "environment \<Rightarrow> TrackInfo \<Rightarrow> string \<Rightarrow> string \<Rightarrow> disk_file \<Rightarrow> world \<Rightarrow> (bool \<times> string) \<times> world" where
  "save_audio env track filepath file_extension payload w =
     (let temp_filepath = filepath @ ''.tmp'' in
      case write_fault env temp_filepath of
        Some (e, left) \<Rightarrow>
          ((False, translate env None [] e ''Track Download''),
           w\<lparr>files := discard_temp env temp_filepath ((files w)(temp_filepath := left))\<rparr>)
      | None \<Rightarrow>
          (let fs1 = (files w)(temp_filepath \<mapsto> payload) in
           if is_valid_existing_file fs1 temp_filepath
           then (case rename_fault env temp_filepath of
                   Some e \<Rightarrow>
                     ((False, translate env None [] e ''Track Download''),
                      w\<lparr>files := discard_temp env temp_filepath fs1\<rparr>)
                 | None \<Rightarrow>
                     (let fs2 = (fs1(filepath := fs1 temp_filepath))(temp_filepath := None);
                          fs3 = (if file_extension = ''.mp3''
                                 then fs2(filepath \<mapsto> embed_metadata env track payload)
                                 else fs2)
                      in ((True, filepath), w\<lparr>files := fs3\<rparr>)))
           else (case remove_fault env temp_filepath of
                   None \<Rightarrow>
                     ((False, ''Downloaded file appears to be corrupted''),
                      w\<lparr>files := fs1(temp_filepath := None)\<rparr>)
                 | Some e \<Rightarrow>
                     ((False, translate env None [] e ''Track Download''),
                      w\<lparr>files := discard_temp env temp_filepath fs1\<rparr>))))"


subsection \<open>The fetch\<close>

definition download_track_async ::
  "environment \<Rightarrow> TrackInfo \<Rightarrow> string \<Rightarrow> string \<Rightarrow> bool \<Rightarrow> string \<Rightarrow> bool \<Rightarrow> world
     \<Rightarrow> (bool \<times> string) \<times> world" where
  "download_track_async env track outpath token prefer_flac filename_format use_track_numbers w =
     (let filepath = track_filepath track outpath ''.mp3'' filename_format use_track_numbers in
      if is_valid_existing_file (files w) filepath
      then ((True, ''File already exists - skipped''), w)
      else
        (case (if files w filepath \<noteq> None then remove_fault env filepath else None) of
           Some e \<Rightarrow> ((False, ''Failed to remove corrupted file: '' @ e), w)
         | None \<Rightarrow>
             (case request_link env track (w\<lparr>files := (files w)(filepath := None)\<rparr>) of
                (Inl msg, w1) \<Rightarrow> ((False, msg), w1)
              | (Inr link, w1) \<Rightarrow>
                  (case negotiate_flac env track prefer_flac link w1 of
                     ((download_url, file_extension), w2) \<Rightarrow>
                       (let filepath = track_filepath track outpath file_extension
                                         filename_format use_track_numbers in
                        if \<not> has_double_slash download_url
                        then ((False, translate env None [] ''list index out of range''
                                        ''Track Download''), w2)
                        else
                          (let w3 = w2\<lparr>calls := calls w2 @ [GetAudio download_url]\<rparr> in
                           case get_audio env download_url of
                             Raises e \<Rightarrow>
                               ((False, translate env None [] e ''Track Download''), w3)
                           | Returns audio \<Rightarrow>
                               if audio_status audio \<noteq> 200
                               then ((False, ''Failed to download audio: HTTP ''
                                               @ str_int (audio_status audio)), w3)
                               else save_audio env track filepath file_extension
                                      (audio_content audio) w3))))))"

section \<open>Batch pipeline (download_service.py, download_tracks_batch)\<close>

record batch_args =
  arg_job_id :: string
  arg_tracks :: "TrackInfo list"
  arg_outpath :: string
  arg_token :: string
  arg_prefer_flac :: bool
  arg_filename_format :: string
  arg_use_track_numbers :: bool
  arg_use_artist_subfolders :: bool
  arg_use_album_subfolders :: bool
  arg_is_playlist :: bool

text \<open>\<^verbatim>\<open>track.artists.split(', ')[0] if ', ' in track.artists else track.artists\<close>\<close>

fun first_artist :: "string \<Rightarrow> string" where
  "first_artist (a # b # cs) =
     (if a = CHR '','' \<and> b = CHR '' '' then [] else a # first_artist (b # cs))"
| "first_artist cs = cs"

text \<open>Lines 297-307: the output directory of a track.\<close>

definition track_folder :: "batch_args \<Rightarrow> TrackInfo \<Rightarrow> string" where
  "track_folder a track =
     (if arg_is_playlist a
      then (let p1 = (if arg_use_artist_subfolders a
                      then path_join (arg_outpath a) (sanitize (first_artist (artists track)))
                      else arg_outpath a)
            in if arg_use_album_subfolders a then path_join p1 (sanitize (album track)) else p1)
      else arg_outpath a)"

text \<open>
  Lines 296-313, up to the call of the fetcher: the directory is made for a playlist
  and the counts so far are reported. The result is the directory, or None when an
  exception was raised, which line 336 catches.
\<close>

definition begin_track ::
  "environment \<Rightarrow> batch_args \<Rightarrow> TrackInfo \<Rightarrow> int \<Rightarrow> int \<Rightarrow> int \<Rightarrow> JobManager
     \<Rightarrow> string option \<times> JobManager" where
  "begin_track env a track c f s m =
     (let track_outpath = track_folder a track in
      if arg_is_playlist a \<and> mkdir_fault env track_outpath \<noteq> None then (None, m)
      else (case update_job_progress m (arg_job_id a) (title track @ '' - '' @ artists track) c f s of
              (Some e, m1) \<Rightarrow> (None, m1)
            | (None, m1) \<Rightarrow> (Some track_outpath, m1)))"

text \<open>Lines 320-331: the outcome of the fetch is counted.\<close>

definition end_track ::
  "batch_args \<Rightarrow> bool \<times> string \<Rightarrow> int \<times> int \<times> int \<Rightarrow> JobManager
     \<Rightarrow> (int \<times> int \<times> int) \<times> JobManager" where
  "end_track a res cnt m =
     (case (res, cnt) of
        ((success, result), (c, f, s)) \<Rightarrow>
          if success
          then (if result = ''File already exists - skipped''
                then ((c, f, s + 1), m)
                else ((c + 1, f, s), add_downloaded_file m (arg_job_id a) result))
          else ((c, f + 1, s), m))"

text \<open>Lines 340-342, after the loop.\<close>

definition finish_batch ::
  "batch_args \<Rightarrow> int \<times> int \<times> int \<Rightarrow> JobManager \<Rightarrow> py_error option \<times> JobManager" where
  "finish_batch a cnt m =
     (case cnt of
        (c, f, s) \<Rightarrow>
          (case update_job_progress m (arg_job_id a) ''Completed'' c f s of
             (Some e, m1) \<Rightarrow> (Some e, m1)
           | (None, m1) \<Rightarrow> (None, update_job_status m1 (arg_job_id a) COMPLETED None)))"

text \<open>The loop of lines 294-338, run without interruption.\<close>

fun track_loop ::
  "environment \<Rightarrow> batch_args \<Rightarrow> TrackInfo list \<Rightarrow> int \<times> int \<times> int \<Rightarrow> JobManager \<times> world
     \<Rightarrow> (int \<times> int \<times> int) \<times> JobManager \<times> world" where
  "track_loop env a [] cnt (m, w) = (cnt, m, w)"
| "track_loop env a (track # rest) (c, f, s) (m, w) =
     (case begin_track env a track c f s m of
        (None, m1) \<Rightarrow> track_loop env a rest (c, f + 1, s) (m1, w)
      | (Some track_outpath, m1) \<Rightarrow>
          (case download_track_async env track track_outpath (arg_token a) (arg_prefer_flac a)
                  (arg_filename_format a) (arg_use_track_numbers a) w of
             (res, w1) \<Rightarrow>
               (case end_track a res (c, f, s) m1 of
                  (cnt, m2) \<Rightarrow> track_loop env a rest cnt (m2, w1))))"

definition download_tracks_batch ::
  "environment \<Rightarrow> batch_args \<Rightarrow> JobManager \<times> world \<Rightarrow> py_error option \<times> JobManager \<times> world" where
  "download_tracks_batch env a st =
     (case st of
        (m, w) \<Rightarrow>
          (case mkdir_fault env (arg_outpath a) of
             Some e \<Rightarrow> (Some (OSError e), m, w)
           | None \<Rightarrow>
               (case track_loop env a (arg_tracks a) (0, 0, 0)
                       (update_job_status m (arg_job_id a) RUNNING None, w) of
                  (cnt, m1, w1) \<Rightarrow>
                    (case finish_batch a cnt m1 of (exc, m2) \<Rightarrow> (exc, m2, w1)))))"

section \<open>The batch as a cooperative task\<close>

text \<open>
  The server (server_spotidownloader.py, lines 226-252) creates the job with
  \<^verbatim>\<open>len(tracks)\<close> tracks, wraps \<^verbatim>\<open>download_tracks_batch\<close> in an \<^verbatim>\<open>asyncio\<close> task and registers
  it. The task runs on the single-threaded event loop: between two suspension points
  (\<^verbatim>\<open>await\<close>) it runs alone, and other handlers, \<^verbatim>\<open>cancel_job\<close> among them, run only
  while it is suspended. A coroutine state records where the batch is suspended: before
  its first step, in the \<^verbatim>\<open>await\<close> of the fetch of a track (with the tracks left, the
  directory and the three counters), in the \<^verbatim>\<open>asyncio.sleep\<close> after a track, or ended by
  return, by an exception or by cancellation. \<open>next_fetch\<close> runs the loop from its head to
  the next suspension; an iteration that raises before the fetch has no suspension.
  A task whose cancellation was requested gets \<^verbatim>\<open>CancelledError\<close> at its suspension point
  when it is resumed; this is a \<^verbatim>\<open>BaseException\<close> (Python 3.8 and later), which no handler
  of the batch or of the fetcher catches, so the task ends there. The fetch of a track is
  one step; what a fetch interrupted by a cancellation leaves on disk is not modelled.
\<close>

datatype coroutine =
    NotStarted
  | AwaitFetch TrackInfo "TrackInfo list" string int int int
  | AwaitSleep "TrackInfo list" int int int
  | Returned
  | Raised py_error
  | Cancelled

fun next_fetch ::
  "environment \<Rightarrow> batch_args \<Rightarrow> TrackInfo list \<Rightarrow> int \<times> int \<times> int \<Rightarrow> JobManager
     \<Rightarrow> coroutine \<times> JobManager" where
  "next_fetch env a [] cnt m =
     (case finish_batch a cnt m of
        (None, m1) \<Rightarrow> (Returned, m1)
      | (Some e, m1) \<Rightarrow> (Raised e, m1))"
| "next_fetch env a (track # rest) (c, f, s) m =
     (case begin_track env a track c f s m of
        (None, m1) \<Rightarrow> next_fetch env a rest (c, f + 1, s) m1
      | (Some track_outpath, m1) \<Rightarrow> (AwaitFetch track rest track_outpath c f s, m1))"

fun resume_coroutine ::
  "environment \<Rightarrow> batch_args \<Rightarrow> coroutine \<Rightarrow> JobManager \<times> world
     \<Rightarrow> coroutine \<times> JobManager \<times> world" where
  "resume_coroutine env a NotStarted (m, w) =
     (case mkdir_fault env (arg_outpath a) of
        Some e \<Rightarrow> (Raised (OSError e), m, w)
      | None \<Rightarrow>
          (case next_fetch env a (arg_tracks a) (0, 0, 0)
                  (update_job_status m (arg_job_id a) RUNNING None) of
             (co, m1) \<Rightarrow> (co, m1, w)))"
| "resume_coroutine env a (AwaitFetch track rest track_outpath c f s) (m, w) =
     (case download_track_async env track track_outpath (arg_token a) (arg_prefer_flac a)
             (arg_filename_format a) (arg_use_track_numbers a) w of
        (res, w1) \<Rightarrow>
          (case end_track a res (c, f, s) m of
             ((c1, f1, s1), m1) \<Rightarrow> (AwaitSleep rest c1 f1 s1, m1, w1)))"
| "resume_coroutine env a (AwaitSleep rest c f s) (m, w) =
     (case next_fetch env a rest (c, f, s) m of (co, m1) \<Rightarrow> (co, m1, w))"
| "resume_coroutine env a co (m, w) = (co, m, w)"

fun is_final :: "coroutine \<Rightarrow> bool" where
  "is_final Returned = True"
| "is_final (Raised e) = True"
| "is_final Cancelled = True"
| "is_final co = False"

text \<open>
  The state of the process: the registry, the disk and the provider's view of it, and
  for each task reference the coroutine it runs and the arguments it was created with.
\<close>

record system =
  mgr :: JobManager
  disk :: world
  coros :: "nat \<Rightarrow> coroutine"
  targs :: "nat \<Rightarrow> batch_args"
  next_task :: nat

definition blank_args :: batch_args where
  "blank_args = \<lparr>arg_job_id = [], arg_tracks = [], arg_outpath = [], arg_token = [],
     arg_prefer_flac = False, arg_filename_format = [], arg_use_track_numbers = False,
     arg_use_artist_subfolders = False, arg_use_album_subfolders = False,
     arg_is_playlist = False\<rparr>"

definition init_system :: "world \<Rightarrow> system" where
  "init_system w = \<lparr>mgr = init_manager, disk = w, coros = (\<lambda>_. NotStarted),
     targs = (\<lambda>_. blank_args), next_task = 0\<rparr>"

fun resume_n ::
  "environment \<Rightarrow> batch_args \<Rightarrow> nat \<Rightarrow> coroutine \<times> JobManager \<times> world
     \<Rightarrow> coroutine \<times> JobManager \<times> world" where
  "resume_n env a 0 st = st"
| "resume_n env a (Suc n) (co, m, w) = resume_n env a n (resume_coroutine env a co (m, w))"

definition ended :: "py_error option \<Rightarrow> coroutine" where
  "ended exc = (case exc of None \<Rightarrow> Returned | Some e \<Rightarrow> Raised e)"

definition set_finished :: "JobManager \<Rightarrow> nat \<Rightarrow> bool \<Rightarrow> JobManager" where
  "set_finished m t b = m\<lparr>tasks := (tasks m)(t := (tasks m t)\<lparr>finished := b\<rparr>)\<rparr>"

text \<open>
  server_spotidownloader.py, \<^verbatim>\<open>start_download\<close>, lines 226-252. An empty track list or a
  failing \<^verbatim>\<open>mkdir\<close> of the output directory ends the request with an error before any job
  is created. The job id of the arguments stands for the value of \<^verbatim>\<open>uuid.uuid4()\<close>, which
  does not repeat an id of the registry: an event with such an id is no event.
\<close>

definition start_download :: "environment \<Rightarrow> batch_args \<Rightarrow> system \<Rightarrow> system" where
  "start_download env a s =
     (if arg_tracks a = [] \<or> mkdir_fault env (arg_outpath a) \<noteq> None
         \<or> jobs (mgr s) (arg_job_id a) \<noteq> None
      then s
      else (case create_job (mgr s) (arg_job_id a) (int (length (arg_tracks a))) (arg_outpath a) of
              (jid, m1) \<Rightarrow>
                (let t = next_task s;
                     m2 = m1\<lparr>tasks := (tasks m1)(t := \<lparr>finished = False, must_cancel = False\<rparr>)\<rparr>
                 in s\<lparr>mgr := register_task m2 jid t,
                      coros := (coros s)(t := NotStarted),
                      targs := (targs s)(t := a),
                      next_task := Suc t\<rparr>)))"

text \<open>
  The event loop resumes a task: nothing happens to a task that is done; a task whose
  cancellation was requested ends cancelled; otherwise the coroutine runs to its next
  suspension, and the task is done if the coroutine has ended.
\<close>

definition resume_task :: "environment \<Rightarrow> nat \<Rightarrow> system \<Rightarrow> system" where
  "resume_task env t s =
     (if next_task s \<le> t \<or> finished (tasks (mgr s) t) then s
      else if must_cancel (tasks (mgr s) t)
      then s\<lparr>mgr := set_finished (mgr s) t True, coros := (coros s)(t := Cancelled)\<rparr>
      else (case resume_coroutine env (targs s t) (coros s t) (mgr s, disk s) of
              (co, m1, w1) \<Rightarrow>
                s\<lparr>mgr := set_finished m1 t (is_final co), disk := w1,
                  coros := (coros s)(t := co)\<rparr>))"

text \<open>
  What happens in the process, one event at a time: the server starts a download, the
  event loop resumes a task, a client asks for a cancellation (\<^verbatim>\<open>DELETE /job/{job_id}\<close>,
  which calls \<^verbatim>\<open>cancel_job\<close>).
\<close>

datatype event = StartDownload batch_args | Resume nat | Cancel string

fun step :: "environment \<Rightarrow> event \<Rightarrow> system \<Rightarrow> system" where
  "step env (StartDownload a) s = start_download env a s"
| "step env (Resume t) s = resume_task env t s"
| "step env (Cancel jid) s = s\<lparr>mgr := snd (cancel_job (mgr s) jid)\<rparr>"

fun run :: "environment \<Rightarrow> event list \<Rightarrow> system \<Rightarrow> system" where
  "run env [] s = s"
| "run env (e # es) s = run env es (step env e s)"

section \<open>Invariant of the registry and its tasks\<close>

text \<open>
  \<open>counted\<close> is the sum of the three counts of a job. \<open>only_job r m m'\<close> says that \<open>m'\<close>
  differs from \<open>m\<close> at most in the job object \<open>r\<close>, whose id and total are kept.
  \<open>co_inv\<close> relates a job record to the state of its task (done, cancellation requested)
  and of its coroutine; \<open>sys_inv\<close> says that every job of the registry has its task, every
  registered task its job, and that \<open>co_inv\<close> holds of each pair. \<open>forward\<close> is the order
  of statuses: the rank does not decrease and a terminal status stays.
\<close>

definition counted :: "JobStatusResponse \<Rightarrow> int" where
  "counted j = completed_tracks j + failed_tracks j + skipped_tracks j"

definition only_job :: "nat \<Rightarrow> JobManager \<Rightarrow> JobManager \<Rightarrow> bool" where
  "only_job r m m' =
     (jobs m' = jobs m \<and> next_ref m' = next_ref m \<and> job_tasks m' = job_tasks m \<and>
      tasks m' = tasks m \<and> (\<forall>r'. r' \<noteq> r \<longrightarrow> store m' r' = store m r') \<and>
      job_id (store m' r) = job_id (store m r) \<and>
      total_tracks (store m' r) = total_tracks (store m r))"

fun status_rank :: "JobStatus \<Rightarrow> nat" where
  "status_rank PENDING = 0"
| "status_rank RUNNING = 1"
| "status_rank COMPLETED = 2"
| "status_rank FAILED = 2"
| "status_rank SKIPPED = 2"

fun co_inv :: "JobStatusResponse \<Rightarrow> bool \<Rightarrow> bool \<Rightarrow> coroutine \<Rightarrow> bool" where
  "co_inv j fin mc NotStarted =
     (\<not> fin \<and> counted j = 0 \<and> 0 \<le> total_tracks j \<and>
      status j = (if mc then FAILED else PENDING))"
| "co_inv j fin mc (AwaitFetch track rest p c f s) =
     (\<not> fin \<and> counted j = c + f + s \<and> c + f + s + 1 + int (length rest) = total_tracks j \<and>
      status j = (if mc then FAILED else RUNNING))"
| "co_inv j fin mc (AwaitSleep rest c f s) =
     (\<not> fin \<and> counted j \<le> c + f + s \<and> c + f + s + int (length rest) = total_tracks j \<and>
      status j = (if mc then FAILED else RUNNING))"
| "co_inv j fin mc Returned =
     (fin \<and> \<not> mc \<and> counted j = total_tracks j \<and> status j = COMPLETED)"
| "co_inv j fin mc (Raised e) =
     (fin \<and> \<not> mc \<and> counted j \<le> total_tracks j \<and>
      status j = (case e of OSError x \<Rightarrow> PENDING | _ \<Rightarrow> RUNNING))"
| "co_inv j fin mc Cancelled =
     (fin \<and> mc \<and> counted j \<le> total_tracks j \<and> status j = FAILED)"

definition task_inv :: "system \<Rightarrow> nat \<Rightarrow> bool" where
  "task_inv s t =
     (\<exists>r. jobs (mgr s) (arg_job_id (targs s t)) = Some r \<and>
          job_tasks (mgr s) (arg_job_id (targs s t)) = Some t \<and>
          total_tracks (store (mgr s) r) = int (length (arg_tracks (targs s t))) \<and>
          co_inv (store (mgr s) r) (finished (tasks (mgr s) t)) (must_cancel (tasks (mgr s) t))
            (coros s t))"

definition sys_inv :: "system \<Rightarrow> bool" where
  "sys_inv s =
     ((\<forall>jid r. jobs (mgr s) jid = Some r \<longrightarrow>
         r < next_ref (mgr s) \<and> job_id (store (mgr s) r) = jid \<and>
         (\<exists>t<next_task s. arg_job_id (targs s t) = jid)) \<and>
      (\<forall>jid t. job_tasks (mgr s) jid = Some t \<longrightarrow>
         t < next_task s \<and> arg_job_id (targs s t) = jid) \<and>
      (\<forall>t<next_task s. task_inv s t))"

definition forward :: "JobStatus \<Rightarrow> JobStatus \<Rightarrow> bool" where
  "forward st st' =
     (status_rank st \<le> status_rank st' \<and> ((st = COMPLETED \<or> st = FAILED) \<longrightarrow> st' = st))"

definition moves_forward :: "system \<Rightarrow> system \<Rightarrow> bool" where
  "moves_forward s s' =
     (\<forall>jid r. jobs (mgr s) jid = Some r \<longrightarrow>
        jobs (mgr s') jid = Some r \<and>
        forward (status (store (mgr s) r)) (status (store (mgr s') r)))"

section \<open>Example registries\<close>

definition registry_50 :: JobManager where
  "registry_50 = snd (create_job init_manager ''job-1'' 50 ''./downloads'')"

definition done_task :: Task where
  "done_task = \<lparr>finished = True, must_cancel = False\<rparr>"

definition registry_live :: JobManager where
  "registry_live = register_task registry_50 ''job-1'' 0"

definition registry_done :: JobManager where
  "registry_done = registry_live\<lparr>tasks := (tasks registry_live)(0 := done_task)\<rparr>"

section \<open>Example tracks, files and providers\<close>

definition song :: TrackInfo where
  "song = \<lparr>track_id = ''t1'', title = ''Song'', artists = ''Band'', album = ''Album'',
     track_number = 1, duration_ms = 200000, isrc = [], image_url = [],
     release_date = ''2020''\<rparr>"

definition good_mp3 :: disk_file where
  "good_mp3 = \<lparr>getsize = Returns 1200000, mp3_length = Returns 200\<rparr>"

definition world_with_song :: world where
  "world_with_song = \<lparr>files = [''out/01 - Song - Band.mp3'' \<mapsto> good_mp3], calls = []\<rparr>"


definition empty_world :: world where
  "empty_world = \<lparr>files = Map.empty, calls = []\<rparr>"

definition provider_ok :: environment where
  "provider_ok = \<lparr>
     translate = (\<lambda>code text msg ctx. ctx @ '': '' @ text @ msg),
     post_download = (\<lambda>tid lossless. Returns \<lparr>resp_status = 200, resp_text = [],
        resp_json = Returns \<lparr>js_success = True, js_error = None, js_message = None,
          js_link = Some ''https://cdn.example/a'', js_flacAvailable = False\<rparr>\<rparr>),
     post_isFlacAvailable = (\<lambda>tid. Raises ''timeout''),
     get_audio = (\<lambda>url. Returns \<lparr>audio_status = 200, audio_content = good_mp3\<rparr>),
     remove_fault = (\<lambda>p. None),
     write_fault = (\<lambda>p. None),
     rename_fault = (\<lambda>p. None),
     embed_metadata = (\<lambda>track f. f),
     mkdir_fault = (\<lambda>p. None)\<rparr>"

definition song2 :: TrackInfo where
  "song2 = \<lparr>track_id = ''t2'', title = ''Tune'', artists = ''Duo, Guest'', album = ''Album'',
     track_number = 2, duration_ms = 180000, isrc = [], image_url = [],
     release_date = ''2021-05-01''\<rparr>"

definition two_tracks :: batch_args where
  "two_tracks = \<lparr>arg_job_id = ''job-1'', arg_tracks = [song, song2], arg_outpath = ''out'',
     arg_token = ''tok'', arg_prefer_flac = False, arg_filename_format = ''title_artist'',
     arg_use_track_numbers = True, arg_use_artist_subfolders = False,
     arg_use_album_subfolders = False, arg_is_playlist = False\<rparr>"

definition provider_down :: environment where
  "provider_down = provider_ok\<lparr>post_download := (\<lambda>tid lossless. Raises ''connection refused'')\<rparr>"

definition started :: system where
  "started = run provider_ok [StartDownload two_tracks, Resume 0, Resume 0, Resume 0]
     (init_system empty_world)"

definition cancelled_mid_batch :: system where
  "cancelled_mid_batch = step provider_ok (Cancel ''job-1'') started"

definition running_job :: JobStatusResponse where
  "running_job = \<lparr>job_id = ''job-1'', status = RUNNING, progress = 50,
     current_track = Some ''Tune - Duo, Guest'', total_tracks = 2,
     completed_tracks = 1, failed_tracks = 0, skipped_tracks = 0,
     error_message = None, download_path = Some ''out'',
     downloaded_files = [''out/01 - Song - Band.mp3'']\<rparr>"

definition completed_job :: JobStatusResponse where
  "completed_job = \<lparr>job_id = ''job-1'', status = COMPLETED, progress = 100,
     current_track = Some ''Completed'', total_tracks = 2,
     completed_tracks = 2, failed_tracks = 0, skipped_tracks = 0,
     error_message = None, download_path = Some ''out'',
     downloaded_files = [''out/01 - Song - Band.mp3'', ''out/02 - Tune - Duo, Guest.mp3'']\<rparr>"

definition cancelled_job :: JobStatusResponse where
  "cancelled_job = running_job\<lparr>status := FAILED, error_message := Some ''Job cancelled by user''\<rparr>"

definition registered :: JobManager where
  "registered = mgr (run provider_down [StartDownload two_tracks] (init_system empty_world))"






section \<open>Helper facts\<close>

lemma progress_percent_29_50: "progress_percent 29 50 = Inr 57"
  by code_simp

lemma jobs_update_job_status [simp]: "jobs (update_job_status m jid st err) = jobs m"
  by (simp add: update_job_status_def Let_def split: option.splits)

lemma jobs_update_job_progress [simp]: "jobs (snd (update_job_progress m jid l c f s)) = jobs m"
  by (simp add: update_job_progress_def Let_def split: option.splits sum.splits)

lemma jobs_add_downloaded_file [simp]: "jobs (add_downloaded_file m jid p) = jobs m"
  by (simp add: add_downloaded_file_def split: option.splits)

section \<open>Registry operations on an unknown job id\<close>

text \<open>
  C10. Each of the three registry mutations (\<^verbatim>\<open>update_job_status\<close>,
  \<^verbatim>\<open>update_job_progress\<close>, \<^verbatim>\<open>add_downloaded_file\<close>), called with a job id that is
  not a key of the registry, raises nothing and returns the registry as it was.
\<close>

theorem unknown_job_mutations_noop:
  "jobs m jid = None \<Longrightarrow>
     update_job_status m jid st err = m \<and>
     update_job_progress m jid label c f s = (None, m) \<and>
     add_downloaded_file m jid path = m"
  by (simp add: update_job_status_def update_job_progress_def add_downloaded_file_def)

theorem unknown_job_mutations_noop_witness:
  "jobs registry_50 ''job-2'' = None \<and>
   update_job_status registry_50 ''job-2'' FAILED (Some ''boom'') = registry_50 \<and>
   update_job_progress registry_50 ''job-2'' ''Song'' 1 2 3 = (None, registry_50) \<and>
   add_downloaded_file registry_50 ''job-2'' ''a.mp3'' = registry_50"
proof -
  have h: "jobs registry_50 ''job-2'' = None"
    by (simp add: registry_50_def create_job_def init_manager_def)
  show ?thesis
    using h unknown_job_mutations_noop [OF h] by simp
qed

section \<open>Cancellation\<close>

text \<open>
  C5. \<^verbatim>\<open>cancel_job\<close> on a job whose registered task is already done returns False and
  leaves the registry and the task as they were. On a job of the registry whose
  registered task is not done it returns True, the task carries the cancellation
  request, and the job's status is FAILED with the message "Job cancelled by user"
  already in the returned state, in which the task is still not done.
\<close>

theorem cancel_job_spec:
  "(job_tasks m jid = Some t \<and> finished (tasks m t) \<longrightarrow> cancel_job m jid = (False, m)) \<and>
   (job_tasks m jid = Some t \<and> \<not> finished (tasks m t) \<and> jobs m jid = Some r \<longrightarrow>
      fst (cancel_job m jid) = True \<and>
      must_cancel (tasks (snd (cancel_job m jid)) t) \<and>
      \<not> finished (tasks (snd (cancel_job m jid)) t) \<and>
      map_option status (get_job_status (snd (cancel_job m jid)) jid) = Some FAILED \<and>
      map_option error_message (get_job_status (snd (cancel_job m jid)) jid)
        = Some (Some ''Job cancelled by user''))"
  by (simp add: cancel_job_def update_job_status_def get_job_status_def Let_def)

theorem cancel_job_spec_witness:
  "job_tasks registry_done ''job-1'' = Some 0 \<and> finished (tasks registry_done 0) \<and>
   cancel_job registry_done ''job-1'' = (False, registry_done) \<and>
   job_tasks registry_live ''job-1'' = Some 0 \<and> \<not> finished (tasks registry_live 0) \<and>
   jobs registry_live ''job-1'' = Some 0 \<and>
   fst (cancel_job registry_live ''job-1'') = True \<and>
   must_cancel (tasks (snd (cancel_job registry_live ''job-1'')) 0) \<and>
   map_option status (get_job_status (snd (cancel_job registry_live ''job-1'')) ''job-1'')
     = Some FAILED"
proof -
  have d: "job_tasks registry_done ''job-1'' = Some 0 \<and> finished (tasks registry_done 0)"
    by (simp add: registry_done_def registry_live_def register_task_def done_task_def)
  have l: "job_tasks registry_live ''job-1'' = Some 0 \<and> \<not> finished (tasks registry_live 0)
           \<and> jobs registry_live ''job-1'' = Some 0"
    by (simp add: registry_live_def register_task_def registry_50_def create_job_def
        init_manager_def)
  show ?thesis
    using d l cancel_job_spec [of registry_done "''job-1''" 0 0]
      cancel_job_spec [of registry_live "''job-1''" 0 0]
    by simp
qed

section \<open>Progress\<close>

text \<open>
  C6. The claim is that the progress stored by \<^verbatim>\<open>update_job_progress\<close> is
  \<open>floor (100 * (completed + failed + skipped) / total_tracks)\<close>. On a job of 50 tracks,
  reporting 29 completed tracks stores 57, and the floor is 58: the double nearest to
  29/50, times 100, rounds to 57.99999999999999, which \<^verbatim>\<open>int()\<close> truncates.
\<close>

theorem progress_29_of_50_is_57:
  "map_option progress
     (get_job_status (snd (update_job_progress registry_50 ''job-1'' ''Song - Band'' 29 0 0))
        ''job-1'') = Some 57
   \<and> (100 * (29 + 0 + 0)) div 50 = (58 :: int)"
  by (simp add: update_job_progress_def registry_50_def create_job_def init_manager_def
      get_job_status_def progress_percent_29_50)

section \<open>Snapshots of the registry\<close>

text \<open>
  C9 as stated: no later mutation of a job shows through the dict returned by
  \<^verbatim>\<open>get_all_jobs\<close>. It fails: the dict holds the registry's own job objects, and a status
  update made after the call is read through it.
\<close>

theorem snapshot_sees_status_update:
  "map_option status
     (read_snapshot (update_job_status registry_50 ''job-1'' RUNNING None)
        (get_all_jobs registry_50) ''job-1'') = Some RUNNING
   \<and> map_option status
     (read_snapshot registry_50 (get_all_jobs registry_50) ''job-1'') = Some PENDING"
  by (simp add: read_snapshot_def get_all_jobs_def update_job_status_def registry_50_def
      create_job_def init_manager_def)

text \<open>
  C9 as amended: the returned dict is a copy of the binding of ids to job objects, and
  shares the objects. After \<^verbatim>\<open>update_job_status\<close>, \<^verbatim>\<open>update_job_progress\<close> or
  \<^verbatim>\<open>add_downloaded_file\<close> the binding of the registry is still the one of the returned
  dict, and a job read through the returned dict is the registry's current record of
  it; a job created afterwards under a new id is in the registry and not in the
  returned dict.
\<close>

theorem snapshot_shares_records:
  "get_all_jobs (update_job_status m jid st err) = get_all_jobs m \<and>
   read_snapshot (update_job_status m jid st err) (get_all_jobs m) k
     = get_job_status (update_job_status m jid st err) k \<and>
   get_all_jobs (snd (update_job_progress m jid label c f s)) = get_all_jobs m \<and>
   read_snapshot (snd (update_job_progress m jid label c f s)) (get_all_jobs m) k
     = get_job_status (snd (update_job_progress m jid label c f s)) k \<and>
   get_all_jobs (add_downloaded_file m jid path) = get_all_jobs m \<and>
   read_snapshot (add_downloaded_file m jid path) (get_all_jobs m) k
     = get_job_status (add_downloaded_file m jid path) k \<and>
   (jobs m new_id = None \<longrightarrow>
      get_all_jobs m new_id = None \<and>
      get_job_status (snd (create_job m new_id tot out)) new_id \<noteq> None)"
  by (simp add: read_snapshot_def get_job_status_def get_all_jobs_def create_job_def)

theorem snapshot_shares_records_witness:
  "jobs registry_50 ''job-2'' = None \<and>
   get_all_jobs registry_50 ''job-2'' = None \<and>
   get_job_status (snd (create_job registry_50 ''job-2'' 3 ''out'')) ''job-2'' \<noteq> None \<and>
   read_snapshot (update_job_status registry_50 ''job-1'' RUNNING None)
       (get_all_jobs registry_50) ''job-1''
     = get_job_status (update_job_status registry_50 ''job-1'' RUNNING None) ''job-1''"
proof -
  have h: "jobs registry_50 ''job-2'' = None"
    by (simp add: registry_50_def create_job_def init_manager_def)
  show ?thesis
    using h snapshot_shares_records [of registry_50 "''job-1''" RUNNING None "''job-1''"
        "[]" 0 0 0 "[]" "''job-2''" 3 "''out''"]
    by simp
qed

section \<open>Validity checker\<close>

text \<open>
  C8. \<^verbatim>\<open>is_valid_existing_file\<close> never raises (it is a total function to \<open>bool\<close>, into
  which every exception of \<^verbatim>\<open>getsize\<close> and of the MP3 parse is mapped), and it returns True
  exactly when the path exists, its size is read and is at least 100000 bytes, and
  either the file parses as MP3 with a positive length, or the parse raises, the
  lowered path ends in \<^verbatim>\<open>.flac\<close> and the size exceeds 500000 bytes.
\<close>

theorem is_valid_existing_file_iff:
  "is_valid_existing_file fs filepath =
     (\<exists>f n. fs filepath = Some f \<and> getsize f = Returns n \<and> 100000 \<le> n \<and>
        ((\<exists>len. mp3_length f = Returns len \<and> 0 < len) \<or>
         ((\<exists>e. mp3_length f = Raises e) \<and> endswith (lower filepath) ''.flac''
            \<and> 500000 < n)))"
  by (auto simp: is_valid_existing_file_def split: option.splits io.splits)

section \<open>Track fetcher\<close>



lemma ext_negotiate_flac:
  "snd (fst (negotiate_flac env track pf url w)) = ''.mp3'' \<or>
   snd (fst (negotiate_flac env track pf url w)) = ''.flac''"
  by (simp add: negotiate_flac_def Let_def split: io.splits option.splits)


lemma song_path: "track_filepath song ''out'' ''.mp3'' ''title_artist'' True = ''out/01 - Song - Band.mp3''"
  by code_simp

lemma world_with_song_valid: "is_valid_existing_file (files world_with_song)
     (track_filepath song ''out'' ''.mp3'' ''title_artist'' True)"
  by (simp add: song_path is_valid_existing_file_def world_with_song_def good_mp3_def)











text \<open>
  C4. When the destination path computed with the primary extension holds a file that
  the validity checker accepts, the fetch returns \<^verbatim>\<open>(True, "File already exists - skipped")\<close>,
  which the batch counts as skipped, and the world is unchanged: no file is touched and
  no request is added to the list of requests sent.
\<close>

theorem valid_existing_file_skipped:
  "is_valid_existing_file (files w)
     (track_filepath track outpath ''.mp3'' filename_format use_track_numbers) \<Longrightarrow>
   download_track_async env track outpath token prefer_flac filename_format use_track_numbers w
     = ((True, ''File already exists - skipped''), w)"
  by (simp add: download_track_async_def)

theorem valid_existing_file_skipped_witness:
  "is_valid_existing_file (files world_with_song)
     (track_filepath song ''out'' ''.mp3'' ''title_artist'' True) \<and>
   download_track_async provider_ok song ''out'' ''tok'' True ''title_artist'' True world_with_song
     = ((True, ''File already exists - skipped''), world_with_song) \<and>
   calls world_with_song = []"
  using world_with_song_valid valid_existing_file_skipped [OF world_with_song_valid]
  by (simp add: world_with_song_def)













section \<open>The batch pipeline and its task\<close>

lemma only_job_refl [simp]: "only_job r m m"
  by (simp add: only_job_def)

lemma only_job_trans: "only_job r m m1 \<Longrightarrow> only_job r m1 m2 \<Longrightarrow> only_job r m m2"
  by (simp add: only_job_def)

lemma update_job_status_effect:
  assumes "jobs m jid = Some r"
  shows "only_job r m (update_job_status m jid st err)"
    and "status (store (update_job_status m jid st err) r) = st"
    and "counted (store (update_job_status m jid st err) r) = counted (store m r)"
    and "current_track (store (update_job_status m jid st err) r) = current_track (store m r)"
    and "completed_tracks (store (update_job_status m jid st err) r) = completed_tracks (store m r)"
    and "failed_tracks (store (update_job_status m jid st err) r) = failed_tracks (store m r)"
    and "skipped_tracks (store (update_job_status m jid st err) r) = skipped_tracks (store m r)"
  using assms
  by (simp_all add: update_job_status_def only_job_def counted_def Let_def split: option.splits)

lemma progress_percent_error:
  "progress_percent n tot = Inl e \<Longrightarrow> e = ZeroDivisionError \<or> e = OverflowError"
  by (auto simp: progress_percent_def Let_def split: if_splits)

lemma update_job_progress_effect:
  assumes "jobs m jid = Some r"
  shows "only_job r m (snd (update_job_progress m jid label c f s))"
    and "status (store (snd (update_job_progress m jid label c f s)) r) = status (store m r)"
    and "counted (store (snd (update_job_progress m jid label c f s)) r) = c + f + s"
    and "completed_tracks (store (snd (update_job_progress m jid label c f s)) r) = c"
    and "failed_tracks (store (snd (update_job_progress m jid label c f s)) r) = f"
    and "skipped_tracks (store (snd (update_job_progress m jid label c f s)) r) = s"
    and "current_track (store (snd (update_job_progress m jid label c f s)) r) = Some label"
    and "fst (update_job_progress m jid label c f s) = Some e \<Longrightarrow>
           e = ZeroDivisionError \<or> e = OverflowError"
  using assms progress_percent_error [of "c + f + s" "total_tracks (store m r)"]
  by (auto simp: update_job_progress_def only_job_def counted_def Let_def split: sum.splits)

lemma add_downloaded_file_effect:
  assumes "jobs m jid = Some r"
  shows "only_job r m (add_downloaded_file m jid p)"
    and "status (store (add_downloaded_file m jid p) r) = status (store m r)"
    and "counted (store (add_downloaded_file m jid p) r) = counted (store m r)"
  using assms by (simp_all add: add_downloaded_file_def only_job_def counted_def)

lemma begin_track_effect:
  assumes "jobs m (arg_job_id a) = Some r"
  shows "only_job r m (snd (begin_track env a track c f s m))"
    and "status (store (snd (begin_track env a track c f s m)) r) = status (store m r)"
    and "fst (begin_track env a track c f s m) \<noteq> None \<Longrightarrow>
           counted (store (snd (begin_track env a track c f s m)) r) = c + f + s"
    and "counted (store (snd (begin_track env a track c f s m)) r) = counted (store m r) \<or>
         counted (store (snd (begin_track env a track c f s m)) r) = c + f + s"
  using update_job_progress_effect(1-3) [OF assms, of "title track @ '' - '' @ artists track" c f s]
  by (auto simp: begin_track_def Let_def split: prod.splits option.splits)

lemma end_track_effect:
  assumes "jobs m (arg_job_id a) = Some r"
  shows "only_job r m (snd (end_track a res (c, f, s) m))"
    and "status (store (snd (end_track a res (c, f, s) m)) r) = status (store m r)"
    and "counted (store (snd (end_track a res (c, f, s) m)) r) = counted (store m r)"
    and "(case fst (end_track a res (c, f, s) m) of (c1, f1, s1) \<Rightarrow> c1 + f1 + s1) = c + f + s + 1"
  using add_downloaded_file_effect [OF assms]
  by (auto simp: end_track_def split: prod.splits)

lemma finish_batch_effect:
  assumes "jobs m (arg_job_id a) = Some r"
  shows "only_job r m (snd (finish_batch a (c, f, s) m))"
    and "counted (store (snd (finish_batch a (c, f, s) m)) r) = c + f + s"
    and "fst (finish_batch a (c, f, s) m) = None \<Longrightarrow>
           status (store (snd (finish_batch a (c, f, s) m)) r) = COMPLETED"
    and "fst (finish_batch a (c, f, s) m) = Some e \<Longrightarrow>
           status (store (snd (finish_batch a (c, f, s) m)) r) = status (store m r)
           \<and> (e = ZeroDivisionError \<or> e = OverflowError)"
proof -
  let ?u = "update_job_progress m (arg_job_id a) ''Completed'' c f s"
  note u = update_job_progress_effect [OF assms, of "''Completed''" c f s]
  have j: "jobs (snd ?u) (arg_job_id a) = Some r"
    using u(1) assms by (simp add: only_job_def)
  note v = update_job_status_effect [OF j, of COMPLETED]
  show "only_job r m (snd (finish_batch a (c, f, s) m))"
    using u(1) v(1) by (auto simp: finish_batch_def split: prod.splits option.splits intro: only_job_trans)
  show "counted (store (snd (finish_batch a (c, f, s) m)) r) = c + f + s"
    using u(3) v(3) by (auto simp: finish_batch_def split: prod.splits option.splits)
  show "fst (finish_batch a (c, f, s) m) = None \<Longrightarrow>
           status (store (snd (finish_batch a (c, f, s) m)) r) = COMPLETED"
    using v(2) by (auto simp: finish_batch_def split: prod.splits option.splits)
  show "fst (finish_batch a (c, f, s) m) = Some e \<Longrightarrow>
           status (store (snd (finish_batch a (c, f, s) m)) r) = status (store m r)
           \<and> (e = ZeroDivisionError \<or> e = OverflowError)"
    using u(2) u(8) by (auto simp: finish_batch_def split: prod.splits option.splits)
qed

lemma co_inv_counted: "co_inv j fin mc co \<Longrightarrow> counted j \<le> total_tracks j"
  by (cases co) auto

lemma co_inv_completed: "co_inv j fin mc co \<Longrightarrow> status j = COMPLETED \<Longrightarrow> counted j = total_tracks j"
  by (cases co) (auto split: if_splits py_error.splits)

lemma co_inv_failed: "co_inv j fin mc co \<Longrightarrow> (status j = FAILED) = mc"
  by (cases co) (auto split: if_splits py_error.splits)

lemma co_inv_terminal_fin: "co_inv j fin mc co \<Longrightarrow> status j = COMPLETED \<Longrightarrow> fin"
  by (cases co) (auto split: if_splits py_error.splits)

lemma next_fetch_inv:
  assumes "jobs m (arg_job_id a) = Some r" and "status (store m r) = RUNNING"
    and "counted (store m r) \<le> c + f + s"
    and "c + f + s + int (length rest) = total_tracks (store m r)"
  shows "only_job r m (snd (next_fetch env a rest (c, f, s) m)) \<and>
     co_inv (store (snd (next_fetch env a rest (c, f, s) m)) r)
       (is_final (fst (next_fetch env a rest (c, f, s) m))) False
       (fst (next_fetch env a rest (c, f, s) m)) \<and>
     (status (store (snd (next_fetch env a rest (c, f, s) m)) r) = RUNNING \<or>
      status (store (snd (next_fetch env a rest (c, f, s) m)) r) = COMPLETED)"
  using assms
proof (induction rest arbitrary: c f s m)
  case Nil
  note fb = finish_batch_effect [OF Nil(1), of c f s]
  show ?case
  proof (cases "fst (finish_batch a (c, f, s) m)")
    case None
    then have nf: "next_fetch env a [] (c, f, s) m = (Returned, snd (finish_batch a (c, f, s) m))"
      by (cases "finish_batch a (c, f, s) m") simp
    show ?thesis
      unfolding nf using fb(1) fb(2) fb(3) [OF None] Nil(4) by (simp add: only_job_def)
  next
    case (Some e)
    then have nf: "next_fetch env a [] (c, f, s) m = (Raised e, snd (finish_batch a (c, f, s) m))"
      by (cases "finish_batch a (c, f, s) m") simp
    show ?thesis
      unfolding nf using fb(1) fb(2) fb(4) [OF Some] Nil(2) Nil(4) by (auto simp: only_job_def)
  qed
next
  case (Cons track rest)
  let ?b = "begin_track env a track c f s m"
  note bt = begin_track_effect [OF Cons.prems(1), of env track c f s]
  show ?case
  proof (cases "fst ?b")
    case None
    then have nf: "next_fetch env a (track # rest) (c, f, s) m
        = next_fetch env a rest (c, f + 1, s) (snd ?b)"
      by (cases ?b) simp
    have j: "jobs (snd ?b) (arg_job_id a) = Some r"
      using bt(1) Cons.prems(1) by (simp add: only_job_def)
    have st: "status (store (snd ?b) r) = RUNNING" using bt(2) Cons.prems(2) by simp
    have cn: "counted (store (snd ?b) r) \<le> c + (f + 1) + s"
      using bt(4) Cons.prems(3) by auto
    have tt: "c + (f + 1) + s + int (length rest) = total_tracks (store (snd ?b) r)"
      using bt(1) Cons.prems(4) by (simp add: only_job_def)
    from Cons.IH [OF j st cn tt] show ?thesis
      unfolding nf using bt(1) by (auto intro: only_job_trans)
  next
    case (Some p)
    then have nf: "next_fetch env a (track # rest) (c, f, s) m
        = (AwaitFetch track rest p c f s, snd ?b)"
      by (cases ?b) simp
    have "fst ?b \<noteq> None" using Some by simp
    note c3 = bt(3) [OF this]
    show ?thesis
      unfolding nf using bt(1) bt(2) c3 Cons.prems(2) Cons.prems(4) by (simp add: only_job_def)
  qed
qed

lemma resume_coroutine_inv:
  assumes j: "jobs m (arg_job_id a) = Some r"
    and tt: "total_tracks (store m r) = int (length (arg_tracks a))"
    and ci: "co_inv (store m r) False False co"
  shows "only_job r m (fst (snd (resume_coroutine env a co (m, w)))) \<and>
     co_inv (store (fst (snd (resume_coroutine env a co (m, w)))) r)
       (is_final (fst (resume_coroutine env a co (m, w)))) False
       (fst (resume_coroutine env a co (m, w))) \<and>
     status_rank (status (store m r))
       \<le> status_rank (status (store (fst (snd (resume_coroutine env a co (m, w)))) r))"
proof (cases co)
  case NotStarted
  show ?thesis
  proof (cases "mkdir_fault env (arg_outpath a)")
    case (Some e)
    then show ?thesis using ci NotStarted tt by simp
  next
    case None
    let ?mc = "update_job_status m (arg_job_id a) RUNNING None"
    note u = update_job_status_effect [OF j, of RUNNING None]
    have j0: "jobs ?mc (arg_job_id a) = Some r" using u(1) j by (simp add: only_job_def)
    have c0: "counted (store ?mc r) \<le> 0 + 0 + 0" using u(3) ci NotStarted by simp
    have t0: "0 + 0 + 0 + int (length (arg_tracks a)) = total_tracks (store ?mc r)"
      using u(1) tt by (simp add: only_job_def)
    note n = next_fetch_inv [OF j0 u(2) c0 t0, of env]
    have "status (store m r) = PENDING" using ci NotStarted by simp
    then show ?thesis
      using n u(1) NotStarted None by (auto simp: split: prod.splits intro: only_job_trans)
  qed
next
  case (AwaitFetch track rest p c f s)
  obtain res w1 where d: "download_track_async env track p (arg_token a) (arg_prefer_flac a)
             (arg_filename_format a) (arg_use_track_numbers a) w = (res, w1)"
    by (cases "download_track_async env track p (arg_token a) (arg_prefer_flac a)
             (arg_filename_format a) (arg_use_track_numbers a) w")
  note e = end_track_effect [OF j, of res c f s]
  obtain c1 f1 s1 m1 where et: "end_track a res (c, f, s) m = ((c1, f1, s1), m1)"
    by (cases "end_track a res (c, f, s) m") auto
  have "resume_coroutine env a co (m, w) = (AwaitSleep rest c1 f1 s1, m1, w1)"
    using AwaitFetch d et by simp
  then show ?thesis
    using e ci AwaitFetch et by (auto simp: only_job_def)
next
  case (AwaitSleep rest c f s)
  have st: "status (store m r) = RUNNING" using ci AwaitSleep by simp
  have cn: "counted (store m r) \<le> c + f + s" using ci AwaitSleep by simp
  have t0: "c + f + s + int (length rest) = total_tracks (store m r)" using ci AwaitSleep by simp
  note n = next_fetch_inv [OF j st cn t0, of env]
  then show ?thesis
    using AwaitSleep st by (auto split: prod.splits)
next
  case Returned
  then show ?thesis using ci by simp
next
  case (Raised e)
  then show ?thesis using ci by simp
next
  case Cancelled
  then show ?thesis using ci by simp
qed

lemma forward_refl [simp]: "forward st st"
  by (simp add: forward_def)

lemma forward_trans: "forward a b \<Longrightarrow> forward b c \<Longrightarrow> forward a c"
  by (auto simp: forward_def)

lemma moves_forward_refl [simp]: "moves_forward s s"
  by (simp add: moves_forward_def)

lemma moves_forward_trans: "moves_forward s s1 \<Longrightarrow> moves_forward s1 s2 \<Longrightarrow> moves_forward s s2"
  unfolding moves_forward_def by (blast intro: forward_trans)

lemma sys_inv_init: "sys_inv (init_system w)"
  by (simp add: sys_inv_def init_system_def init_manager_def)

lemma start_download_inv:
  assumes "sys_inv s"
  shows "sys_inv (start_download env a s) \<and> moves_forward s (start_download env a s)"
proof (cases "arg_tracks a = [] \<or> mkdir_fault env (arg_outpath a) \<noteq> None
         \<or> jobs (mgr s) (arg_job_id a) \<noteq> None")
  case True
  then have "start_download env a s = s" by (auto simp: start_download_def)
  then show ?thesis using assms by simp
next
  case False
  let ?m = "mgr s"
  let ?jid = "arg_job_id a"
  let ?s' = "start_download env a s"
  have fresh: "jobs ?m ?jid = None" using False by simp
  have J: "jobs (mgr ?s') = (jobs ?m)(?jid \<mapsto> next_ref ?m)"
    and N: "next_ref (mgr ?s') = Suc (next_ref ?m)"
    and JT: "job_tasks (mgr ?s') = (job_tasks ?m)(?jid \<mapsto> next_task s)"
    and T: "tasks (mgr ?s') = (tasks ?m)(next_task s := \<lparr>finished = False, must_cancel = False\<rparr>)"
    and C: "coros ?s' = (coros s)(next_task s := NotStarted)"
    and A: "targs ?s' = (targs s)(next_task s := a)"
    and NT: "next_task ?s' = Suc (next_task s)"
    using False by (simp_all add: start_download_def create_job_def register_task_def Let_def)
  have S: "store (mgr ?s') = (store ?m)(next_ref ?m :=
                \<lparr>job_id = ?jid, status = PENDING, progress = 0, current_track = None,
                 total_tracks = int (length (arg_tracks a)), completed_tracks = 0,
                 failed_tracks = 0, skipped_tracks = 0, error_message = None,
                 download_path = Some (arg_outpath a), downloaded_files = []\<rparr>)"
    using False by (simp add: start_download_def create_job_def register_task_def Let_def)
  have old_ref: "r < next_ref ?m \<and> job_id (store ?m r) = jid
      \<and> (\<exists>t<next_task s. arg_job_id (targs s t) = jid)" if "jobs ?m jid = Some r" for jid r
    using assms that unfolding sys_inv_def by blast
  have old_task: "t < next_task s \<and> arg_job_id (targs s t) = jid" if "job_tasks ?m jid = Some t" for jid t
    using assms that unfolding sys_inv_def by blast
  have old_inv: "task_inv s t" if "t < next_task s" for t
    using assms that unfolding sys_inv_def by blast
  have i1: "r < next_ref (mgr ?s') \<and> job_id (store (mgr ?s') r) = jid \<and>
         (\<exists>t<next_task ?s'. arg_job_id (targs ?s' t) = jid)" if "jobs (mgr ?s') jid = Some r" for jid r
  proof (cases "jid = ?jid")
    case True
    then have "r = next_ref ?m" using that J by simp
    then show ?thesis using True N S A NT by auto
  next
    case False
    then have o: "jobs ?m jid = Some r" using that J by simp
    from old_ref [OF o] obtain t where t: "t < next_task s" "arg_job_id (targs s t) = jid"
      and r: "r < next_ref ?m" "job_id (store ?m r) = jid" by blast
    have "t < next_task ?s' \<and> arg_job_id (targs ?s' t) = jid" using t NT A by auto
    then show ?thesis using r N S by auto
  qed
  have i2: "t < next_task ?s' \<and> arg_job_id (targs ?s' t) = jid" if "job_tasks (mgr ?s') jid = Some t" for jid t
  proof (cases "jid = ?jid")
    case True
    then show ?thesis using that JT NT A by simp
  next
    case False
    then have "job_tasks ?m jid = Some t" using that JT by simp
    from old_task [OF this] show ?thesis using NT A by auto
  qed
  have i3: "task_inv ?s' t" if "t < next_task ?s'" for t
  proof (cases "t = next_task s")
    case True
    then show ?thesis
      using J JT S T C A by (simp add: task_inv_def counted_def)
  next
    case False
    then have tl: "t < next_task s" using that NT by simp
    from old_inv [OF tl] obtain r where
      r: "jobs ?m (arg_job_id (targs s t)) = Some r"
        "job_tasks ?m (arg_job_id (targs s t)) = Some t"
        "total_tracks (store ?m r) = int (length (arg_tracks (targs s t)))"
        "co_inv (store ?m r) (finished (tasks ?m t)) (must_cancel (tasks ?m t)) (coros s t)"
      unfolding task_inv_def by blast
    have ne: "arg_job_id (targs s t) \<noteq> ?jid" using r(1) fresh by auto
    have rl: "r \<noteq> next_ref ?m" using old_ref [OF r(1)] by simp
    show ?thesis
      unfolding task_inv_def
      using r ne rl False J JT S T C A by (intro exI [of _ r]) simp
  qed
  have mf: "moves_forward s ?s'"
    unfolding moves_forward_def
  proof (intro allI impI)
    fix jid r assume o: "jobs ?m jid = Some r"
    then have "jid \<noteq> ?jid" using fresh by auto
    moreover have "r \<noteq> next_ref ?m" using old_ref [OF o] by simp
    ultimately show "jobs (mgr ?s') jid = Some r \<and>
        forward (status (store ?m r)) (status (store (mgr ?s') r))"
      using o J S by simp
  qed
  show ?thesis
    unfolding sys_inv_def using i1 i2 i3 mf by blast
qed

lemma sys_inv_update:
  assumes inv: "sys_inv s" and t: "t < next_task s"
    and r: "jobs (mgr s) (arg_job_id (targs s t)) = Some r"
    and J: "jobs (mgr s') = jobs (mgr s)" and N: "next_ref (mgr s') = next_ref (mgr s)"
    and JT: "job_tasks (mgr s') = job_tasks (mgr s)"
    and S: "\<And>r'. r' \<noteq> r \<Longrightarrow> store (mgr s') r' = store (mgr s) r'"
    and I: "job_id (store (mgr s') r) = job_id (store (mgr s) r)"
    and TT: "total_tracks (store (mgr s') r) = total_tracks (store (mgr s) r)"
    and T: "\<And>t'. t' \<noteq> t \<Longrightarrow> tasks (mgr s') t' = tasks (mgr s) t'"
    and C: "\<And>t'. t' \<noteq> t \<Longrightarrow> coros s' t' = coros s t'"
    and A: "targs s' = targs s" and NT: "next_task s' = next_task s"
    and CI: "co_inv (store (mgr s') r) (finished (tasks (mgr s') t))
               (must_cancel (tasks (mgr s') t)) (coros s' t)"
    and F: "forward (status (store (mgr s) r)) (status (store (mgr s') r))"
  shows "sys_inv s' \<and> moves_forward s s'"
proof -
  let ?jid = "arg_job_id (targs s t)"
  have old_ref: "r' < next_ref (mgr s) \<and> job_id (store (mgr s) r') = jid
      \<and> (\<exists>t<next_task s. arg_job_id (targs s t) = jid)" if "jobs (mgr s) jid = Some r'" for jid r'
    using inv that unfolding sys_inv_def by blast
  have old_task: "t' < next_task s \<and> arg_job_id (targs s t') = jid"
    if "job_tasks (mgr s) jid = Some t'" for jid t'
    using inv that unfolding sys_inv_def by blast
  have old_inv: "task_inv s t'" if "t' < next_task s" for t'
    using inv that unfolding sys_inv_def by blast
  have jt: "job_tasks (mgr s) ?jid = Some t"
    using old_inv [OF t] unfolding task_inv_def by blast
  have tot: "total_tracks (store (mgr s) r) = int (length (arg_tracks (targs s t)))"
    using old_inv [OF t] r unfolding task_inv_def by auto
  have i1: "r' < next_ref (mgr s') \<and> job_id (store (mgr s') r') = jid \<and>
         (\<exists>t<next_task s'. arg_job_id (targs s' t) = jid)" if "jobs (mgr s') jid = Some r'" for jid r'
  proof -
    have o: "jobs (mgr s) jid = Some r'" using that J by simp
    have "job_id (store (mgr s') r') = job_id (store (mgr s) r')"
      using S [of r'] I by (cases "r' = r") auto
    then show ?thesis using old_ref [OF o] N A NT by simp
  qed
  have i2: "t' < next_task s' \<and> arg_job_id (targs s' t') = jid"
    if "job_tasks (mgr s') jid = Some t'" for jid t'
    using that JT old_task [of jid t'] A NT by simp
  have i3: "task_inv s' t'" if "t' < next_task s'" for t'
  proof (cases "t' = t")
    case True
    show ?thesis
      unfolding task_inv_def True
      using r jt tot J JT A TT CI by (intro exI [of _ r]) simp
  next
    case False
    have tl: "t' < next_task s" using that NT by simp
    from old_inv [OF tl] obtain r' where
      r': "jobs (mgr s) (arg_job_id (targs s t')) = Some r'"
        "job_tasks (mgr s) (arg_job_id (targs s t')) = Some t'"
        "total_tracks (store (mgr s) r') = int (length (arg_tracks (targs s t')))"
        "co_inv (store (mgr s) r') (finished (tasks (mgr s) t')) (must_cancel (tasks (mgr s) t'))
           (coros s t')"
      unfolding task_inv_def by blast
    have "arg_job_id (targs s t') \<noteq> ?jid" using r'(2) jt False by auto
    then have "r' \<noteq> r" using old_ref [OF r'(1)] old_ref [OF r] by auto
    then show ?thesis
      unfolding task_inv_def
      using r' False J JT A S [of r'] T [of t'] C [of t'] by (intro exI [of _ r']) simp
  qed
  have mf: "moves_forward s s'"
    unfolding moves_forward_def
  proof (intro allI impI)
    fix jid r' assume o: "jobs (mgr s) jid = Some r'"
    show "jobs (mgr s') jid = Some r' \<and>
        forward (status (store (mgr s) r')) (status (store (mgr s') r'))"
      using o J F S [of r'] by (cases "r' = r") auto
  qed
  show ?thesis
    unfolding sys_inv_def using i1 i2 i3 mf by blast
qed

lemma co_inv_cancel_request:
  assumes "co_inv j False mc co" and "counted j' = counted j"
    and "total_tracks j' = total_tracks j" and "status j' = FAILED"
  shows "co_inv j' False True co"
  using assms by (cases co) auto

lemma co_inv_cancelled:
  assumes "co_inv j False True co"
  shows "co_inv j True True Cancelled"
  using assms by (cases co) auto

lemma cancel_inv:
  assumes inv: "sys_inv s"
  shows "sys_inv (step env (Cancel jid) s) \<and> moves_forward s (step env (Cancel jid) s)"
proof (cases "\<exists>t. job_tasks (mgr s) jid = Some t \<and> \<not> finished (tasks (mgr s) t)")
  case False
  then have "snd (cancel_job (mgr s) jid) = mgr s"
    by (auto simp: cancel_job_def split: option.splits)
  then have "step env (Cancel jid) s = s" by simp
  then show ?thesis using inv by simp
next
  case True
  then obtain t where jt: "job_tasks (mgr s) jid = Some t" and nf: "\<not> finished (tasks (mgr s) t)"
    by blast
  let ?m = "mgr s"
  let ?mc = "?m\<lparr>tasks := (tasks ?m)(t := (tasks ?m t)\<lparr>must_cancel := True\<rparr>)\<rparr>"
  let ?m' = "update_job_status ?mc jid FAILED (Some ''Job cancelled by user'')"
  let ?s' = "step env (Cancel jid) s"
  have t: "t < next_task s" and a: "arg_job_id (targs s t) = jid"
    using inv jt unfolding sys_inv_def by blast+
  have ti: "task_inv s t" using inv t unfolding sys_inv_def by blast
  then obtain r where r: "jobs ?m jid = Some r"
    and ci: "co_inv (store ?m r) (finished (tasks ?m t)) (must_cancel (tasks ?m t)) (coros s t)"
    unfolding task_inv_def a by blast
  have m': "mgr ?s' = ?m'" using jt nf by (simp add: cancel_job_def)
  have r0: "jobs ?mc jid = Some r" using r by simp
  note u = update_job_status_effect [OF r0, of FAILED "Some ''Job cancelled by user''"]
  have o: "only_job r ?mc ?m'" by (rule u(1))
  have ci': "co_inv (store ?m' r) False True (coros s t)"
    using co_inv_cancel_request [of "store ?m r" "must_cancel (tasks ?m t)" "coros s t" "store ?m' r"]
      ci nf u(2) u(3) o by (simp add: only_job_def)
  have nc: "status (store ?m r) \<noteq> COMPLETED"
    using co_inv_terminal_fin [OF ci] nf by blast
  show ?thesis
  proof (rule sys_inv_update [OF inv t])
    show "jobs ?m (arg_job_id (targs s t)) = Some r" using r a by simp
    show "jobs (mgr ?s') = jobs ?m" unfolding m' using o by (simp add: only_job_def)
    show "next_ref (mgr ?s') = next_ref ?m" unfolding m' using o by (simp add: only_job_def)
    show "job_tasks (mgr ?s') = job_tasks ?m" unfolding m' using o by (simp add: only_job_def)
    show "store (mgr ?s') r' = store ?m r'" if "r' \<noteq> r" for r'
      unfolding m' using o that by (simp add: only_job_def)
    show "job_id (store (mgr ?s') r) = job_id (store ?m r)" unfolding m' using o by (simp add: only_job_def)
    show "total_tracks (store (mgr ?s') r) = total_tracks (store ?m r)"
      unfolding m' using o by (simp add: only_job_def)
    show "tasks (mgr ?s') t' = tasks ?m t'" if "t' \<noteq> t" for t'
      unfolding m' using o that by (simp add: only_job_def)
    show "coros ?s' t' = coros s t'" if "t' \<noteq> t" for t' by simp
    show "targs ?s' = targs s" by simp
    show "next_task ?s' = next_task s" by simp
    have "tasks (mgr ?s') t = (tasks ?m t)\<lparr>must_cancel := True\<rparr>"
      unfolding m' using o by (simp add: only_job_def)
    then show "co_inv (store (mgr ?s') r) (finished (tasks (mgr ?s') t))
               (must_cancel (tasks (mgr ?s') t)) (coros ?s' t)"
      unfolding m' [symmetric] using ci' nf by (simp add: m' [symmetric])
    show "forward (status (store ?m r)) (status (store (mgr ?s') r))"
      unfolding m' using u(2) nc by (cases "status (store ?m r)") (simp_all add: forward_def)
  qed
qed

lemma resume_inv:
  assumes inv: "sys_inv s"
  shows "sys_inv (resume_task env t s) \<and> moves_forward s (resume_task env t s)"
proof (cases "next_task s \<le> t \<or> finished (tasks (mgr s) t)")
  case True
  then have "resume_task env t s = s" by (auto simp: resume_task_def)
  then show ?thesis using inv by simp
next
  case False
  then have t: "t < next_task s" and nf: "\<not> finished (tasks (mgr s) t)" by auto
  let ?m = "mgr s"
  let ?a = "targs s t"
  let ?s' = "resume_task env t s"
  have ti: "task_inv s t" using inv t unfolding sys_inv_def by blast
  then obtain r where r: "jobs ?m (arg_job_id ?a) = Some r"
    and tot: "total_tracks (store ?m r) = int (length (arg_tracks ?a))"
    and ci: "co_inv (store ?m r) (finished (tasks ?m t)) (must_cancel (tasks ?m t)) (coros s t)"
    unfolding task_inv_def by blast
  show ?thesis
  proof (cases "must_cancel (tasks ?m t)")
    case True
    have s': "?s' = s\<lparr>mgr := set_finished ?m t True, coros := (coros s)(t := Cancelled)\<rparr>"
      using t nf True by (simp add: resume_task_def)
    have c: "co_inv (store ?m r) True True Cancelled"
      using co_inv_cancelled ci nf True by simp
    show ?thesis
      unfolding s'
      by (rule sys_inv_update [OF inv t r])
        (use c True in \<open>simp_all add: set_finished_def\<close>)
  next
    case mc: False
    obtain co m1 w1 where rc: "resume_coroutine env ?a (coros s t) (?m, disk s) = (co, m1, w1)"
      by (cases "resume_coroutine env ?a (coros s t) (?m, disk s)")
    have s': "?s' = s\<lparr>mgr := set_finished m1 t (is_final co), disk := w1,
                  coros := (coros s)(t := co)\<rparr>"
      using t nf mc rc by (simp add: resume_task_def)
    have ci0: "co_inv (store ?m r) False False (coros s t)" using ci nf mc by simp
    from resume_coroutine_inv [OF r tot ci0, of env "disk s"]
    have o: "only_job r ?m m1" and c: "co_inv (store m1 r) (is_final co) False co"
      and rk: "status_rank (status (store ?m r)) \<le> status_rank (status (store m1 r))"
      using rc by simp_all
    have nt: "status (store ?m r) \<noteq> COMPLETED \<and> status (store ?m r) \<noteq> FAILED"
      using co_inv_terminal_fin [OF ci0] co_inv_failed [OF ci0] by blast
    have fw: "forward (status (store ?m r)) (status (store m1 r))"
      using rk nt by (simp add: forward_def)
    have mcf: "must_cancel (tasks m1 t) = False" using o mc by (simp add: only_job_def)
    show ?thesis
      unfolding s'
      by (rule sys_inv_update [OF inv t r])
        (use o c fw mcf in \<open>simp_all add: set_finished_def only_job_def\<close>)
  qed
qed

lemma step_inv:
  assumes "sys_inv s"
  shows "sys_inv (step env ev s) \<and> moves_forward s (step env ev s)"
proof (cases ev)
  case (StartDownload a)
  then show ?thesis using start_download_inv [OF assms] by simp
next
  case (Resume t)
  then show ?thesis using resume_inv [OF assms] by simp
next
  case (Cancel jid)
  then show ?thesis using cancel_inv [OF assms] by simp
qed

lemma run_inv:
  assumes "sys_inv s"
  shows "sys_inv (run env evs s) \<and> moves_forward s (run env evs s)"
  using assms
proof (induction evs arbitrary: s)
  case Nil
  then show ?case by simp
next
  case (Cons e es)
  from step_inv [OF Cons.prems, of env e]
  have a: "sys_inv (step env e s)" and b: "moves_forward s (step env e s)" by simp_all
  from Cons.IH [OF a] b show ?case
    by (auto intro: moves_forward_trans)
qed

lemma run_append: "run env (es @ es') s = run env es' (run env es s)"
  by (induction es arbitrary: s) simp_all

lemma sys_inv_job:
  assumes "sys_inv s" and "get_job_status (mgr s) jid = Some j"
  shows "\<exists>t fin co. job_tasks (mgr s) jid = Some t \<and> fin = finished (tasks (mgr s) t)
     \<and> co_inv j fin (must_cancel (tasks (mgr s) t)) co"
proof -
  from assms(2) obtain r where r: "jobs (mgr s) jid = Some r" and j: "j = store (mgr s) r"
    by (auto simp: get_job_status_def)
  from assms(1) r obtain t where t: "t < next_task s" "arg_job_id (targs s t) = jid"
    unfolding sys_inv_def by blast
  from assms(1) t(1) have "task_inv s t" unfolding sys_inv_def by blast
  then show ?thesis
    unfolding task_inv_def using r j t(2) by auto
qed

subsection \<open>The task, resumed to its end, is the batch\<close>

text \<open>
  Resuming the coroutine of a batch once to start it and twice for each track, with no
  cancellation in between, ends it in the state in which \<^verbatim>\<open>download_tracks_batch\<close>, run
  without interruption, ends: returned, or raised with the same exception, with the
  same registry and the same world.
\<close>

lemma resume_n_final:
  "is_final co \<Longrightarrow> resume_n env a n (co, m, w) = (co, m, w)"
  by (induction n) (cases co; simp)+

lemma resume_n_add:
  "resume_n env a (n + k) st = resume_n env a k (resume_n env a n st)"
proof (induction n arbitrary: st)
  case 0
  then show ?case by simp
next
  case (Suc n)
  then show ?case by (cases st) simp
qed

lemma is_final_ended [simp]: "is_final (ended exc)"
  by (simp add: ended_def split: option.splits)

lemma loop_steps_agree:
  "resume_n env a (2 * length ts)
     (fst (next_fetch env a ts (c, f, s) m), snd (next_fetch env a ts (c, f, s) m), w)
   = (case track_loop env a ts (c, f, s) (m, w) of
        (cnt, m1, w1) \<Rightarrow>
          (ended (fst (finish_batch a cnt m1)), snd (finish_batch a cnt m1), w1))"
proof (induction ts arbitrary: c f s m w)
  case Nil
  show ?case
    by (cases "finish_batch a (c, f, s) m") (simp add: ended_def split: option.splits)
next
  case (Cons track rest)
  let ?b = "begin_track env a track c f s m"
  show ?case
  proof (cases "fst ?b")
    case None
    then have nf: "next_fetch env a (track # rest) (c, f, s) m
        = next_fetch env a rest (c, f + 1, s) (snd ?b)"
      and tl: "track_loop env a (track # rest) (c, f, s) (m, w)
        = track_loop env a rest (c, f + 1, s) (snd ?b, w)"
      by (cases ?b; simp)+
    obtain cnt m1 w1 where L: "track_loop env a rest (c, f + 1, s) (snd ?b, w) = (cnt, m1, w1)"
      by (cases "track_loop env a rest (c, f + 1, s) (snd ?b, w)") auto
    have "resume_n env a (2 * length rest + 2)
        (fst (next_fetch env a rest (c, f + 1, s) (snd ?b)),
         snd (next_fetch env a rest (c, f + 1, s) (snd ?b)), w)
      = resume_n env a 2 (ended (fst (finish_batch a cnt m1)), snd (finish_batch a cnt m1), w1)"
      using Cons.IH [of c "f + 1" s "snd ?b" w] L by (simp only: resume_n_add) simp
    then show ?thesis
      unfolding nf tl using L by (simp add: resume_n_final)
  next
    case (Some p)
    then have nf: "next_fetch env a (track # rest) (c, f, s) m
        = (AwaitFetch track rest p c f s, snd ?b)"
      by (cases ?b) simp
    obtain res w1 where d: "download_track_async env track p (arg_token a) (arg_prefer_flac a)
             (arg_filename_format a) (arg_use_track_numbers a) w = (res, w1)"
      by (cases "download_track_async env track p (arg_token a) (arg_prefer_flac a)
             (arg_filename_format a) (arg_use_track_numbers a) w")
    obtain c1 f1 s1 m2 where et: "end_track a res (c, f, s) (snd ?b) = ((c1, f1, s1), m2)"
      by (cases "end_track a res (c, f, s) (snd ?b)") auto
    have tl: "track_loop env a (track # rest) (c, f, s) (m, w)
        = track_loop env a rest (c1, f1, s1) (m2, w1)"
      using Some d et by (cases ?b) simp
    have two: "resume_n env a 2 (AwaitFetch track rest p c f s, snd ?b, w)
        = (fst (next_fetch env a rest (c1, f1, s1) m2),
           snd (next_fetch env a rest (c1, f1, s1) m2), w1)"
      using d et by (simp add: numeral_2_eq_2 split: prod.splits)
    have "resume_n env a (2 + 2 * length rest) (AwaitFetch track rest p c f s, snd ?b, w)
        = resume_n env a (2 * length rest)
            (fst (next_fetch env a rest (c1, f1, s1) m2),
             snd (next_fetch env a rest (c1, f1, s1) m2), w1)"
      by (simp only: resume_n_add two)
    then show ?thesis
      unfolding nf tl using Cons.IH [of c1 f1 s1 m2 w1] by (simp add: add.commute)
  qed
qed

lemma task_steps_agree:
  "resume_n env a (Suc (2 * length (arg_tracks a))) (NotStarted, m, w)
   = (case download_tracks_batch env a (m, w) of
        (exc, m1, w1) \<Rightarrow> (ended exc, m1, w1))"
proof (cases "mkdir_fault env (arg_outpath a)")
  case (Some e)
  then show ?thesis
    by (simp add: download_tracks_batch_def resume_n_final ended_def)
next
  case None
  let ?m = "update_job_status m (arg_job_id a) RUNNING None"
  have "resume_coroutine env a NotStarted (m, w)
      = (fst (next_fetch env a (arg_tracks a) (0, 0, 0) ?m),
         snd (next_fetch env a (arg_tracks a) (0, 0, 0) ?m), w)"
    using None by (simp split: prod.splits)
  then show ?thesis
    using loop_steps_agree [of env a "arg_tracks a" 0 0 0 ?m w] None
    by (simp add: download_tracks_batch_def split: prod.splits)
qed

section \<open>Counts, final status and order of statuses\<close>

lemma double_round_examples:
  "double_round 1 = 1" "double_round 100 = 100" "\<not> overflows 1" "\<not> overflows 100"
  by code_simp+

lemma progress_percent_full: "n \<noteq> 0 \<Longrightarrow> progress_percent n n = Inr 100"
  by (simp add: progress_percent_def double_round_examples py_trunc_def)

lemma update_job_progress_full:
  assumes "jobs m jid = Some r" and "total_tracks (store m r) = c + f + s" and "c + f + s \<noteq> 0"
  shows "fst (update_job_progress m jid label c f s) = None"
    and "progress (store (snd (update_job_progress m jid label c f s)) r) = 100"
  using assms progress_percent_full [of "c + f + s"]
  by (simp_all add: update_job_progress_def Let_def)

lemma track_loop_effect:
  assumes "jobs m (arg_job_id a) = Some r"
  shows "only_job r m (fst (snd (track_loop env a ts (c, f, s) (m, w)))) \<and>
     status (store (fst (snd (track_loop env a ts (c, f, s) (m, w)))) r) = status (store m r) \<and>
     (case fst (track_loop env a ts (c, f, s) (m, w)) of (c1, f1, s1) \<Rightarrow> c1 + f1 + s1)
       = c + f + s + int (length ts)"
  using assms
proof (induction ts arbitrary: c f s m w)
  case Nil
  then show ?case by simp
next
  case (Cons track rest)
  let ?b = "begin_track env a track c f s m"
  note bt = begin_track_effect [OF Cons.prems, of env track c f s]
  have j: "jobs (snd ?b) (arg_job_id a) = Some r"
    using bt(1) Cons.prems by (simp add: only_job_def)
  show ?case
  proof (cases "fst ?b")
    case None
    then have tl: "track_loop env a (track # rest) (c, f, s) (m, w)
        = track_loop env a rest (c, f + 1, s) (snd ?b, w)"
      by (cases ?b) simp
    from Cons.IH [OF j, of c "f + 1" s w] show ?thesis
      unfolding tl using bt(1) bt(2) by (auto intro: only_job_trans)
  next
    case (Some p)
    obtain res w1 where d: "download_track_async env track p (arg_token a) (arg_prefer_flac a)
             (arg_filename_format a) (arg_use_track_numbers a) w = (res, w1)"
      by (cases "download_track_async env track p (arg_token a) (arg_prefer_flac a)
             (arg_filename_format a) (arg_use_track_numbers a) w")
    obtain c1 f1 s1 m2 where et: "end_track a res (c, f, s) (snd ?b) = ((c1, f1, s1), m2)"
      by (cases "end_track a res (c, f, s) (snd ?b)") auto
    note e = end_track_effect [OF j, of res c f s]
    have tl: "track_loop env a (track # rest) (c, f, s) (m, w)
        = track_loop env a rest (c1, f1, s1) (m2, w1)"
      using Some d et by (cases ?b) simp
    have j2: "jobs m2 (arg_job_id a) = Some r"
      using e(1) j et by (simp add: only_job_def)
    have o2: "only_job r m m2" using bt(1) e(1) et by (auto intro: only_job_trans)
    have s2: "status (store m2 r) = status (store m r)" using bt(2) e(2) et by simp
    have c2: "c1 + f1 + s1 = c + f + s + 1" using e(4) et by simp
    from Cons.IH [OF j2, of c1 f1 s1 w1] show ?thesis
      unfolding tl using o2 s2 c2 by (auto intro: only_job_trans)
  qed
qed

lemma batch_direct:
  assumes j: "jobs m (arg_job_id a) = Some r"
    and tt: "total_tracks (store m r) = int (length (arg_tracks a))"
    and ne: "arg_tracks a \<noteq> []"
    and mk: "mkdir_fault env (arg_outpath a) = None"
  shows "fst (download_tracks_batch env a (m, w)) = None"
    and "status (store (fst (snd (download_tracks_batch env a (m, w)))) r) = COMPLETED"
    and "current_track (store (fst (snd (download_tracks_batch env a (m, w)))) r) = Some ''Completed''"
    and "(completed_tracks (store (fst (snd (download_tracks_batch env a (m, w)))) r),
          failed_tracks (store (fst (snd (download_tracks_batch env a (m, w)))) r),
          skipped_tracks (store (fst (snd (download_tracks_batch env a (m, w)))) r))
         = fst (track_loop env a (arg_tracks a) (0, 0, 0)
                 (update_job_status m (arg_job_id a) RUNNING None, w))"
    and "counted (store (fst (snd (download_tracks_batch env a (m, w)))) r)
         = int (length (arg_tracks a))"
    and "progress (store (fst (snd (download_tracks_batch env a (m, w)))) r) = 100"
    and "jobs (fst (snd (download_tracks_batch env a (m, w)))) = jobs m"
proof -
  let ?jid = "arg_job_id a"
  let ?mr = "update_job_status m ?jid RUNNING None"
  let ?L = "track_loop env a (arg_tracks a) (0, 0, 0) (?mr, w)"
  note u = update_job_status_effect [OF j, of RUNNING None]
  have jr: "jobs ?mr ?jid = Some r" using u(1) j by (simp add: only_job_def)
  obtain c f s m1 w1 where L: "?L = ((c, f, s), m1, w1)" by (cases ?L) auto
  from track_loop_effect [OF jr, of env "arg_tracks a" 0 0 0 w]
  have o1: "only_job r ?mr m1" and sm: "c + f + s = int (length (arg_tracks a))"
    using L by simp_all
  have j1: "jobs m1 ?jid = Some r" using o1 jr by (simp add: only_job_def)
  have t1: "total_tracks (store m1 r) = c + f + s"
    using o1 u(1) tt sm by (simp add: only_job_def)
  have nz: "c + f + s \<noteq> 0" using sm ne by simp
  let ?u = "update_job_progress m1 ?jid ''Completed'' c f s"
  note p = update_job_progress_effect [OF j1, of "''Completed''" c f s]
  note pf = update_job_progress_full [OF j1 t1 nz, of "''Completed''"]
  have j2: "jobs (snd ?u) ?jid = Some r" using p(1) j1 by (simp add: only_job_def)
  note v = update_job_status_effect [OF j2, of COMPLETED None]
  have fb: "finish_batch a (c, f, s) m1 = (None, update_job_status (snd ?u) ?jid COMPLETED None)"
    using pf(1) by (cases ?u) (simp add: finish_batch_def)
  have D: "download_tracks_batch env a (m, w)
      = (None, update_job_status (snd ?u) ?jid COMPLETED None, w1)"
    using mk L fb by (simp add: download_tracks_batch_def)
  show "fst (download_tracks_batch env a (m, w)) = None" by (simp add: D)
  show "status (store (fst (snd (download_tracks_batch env a (m, w)))) r) = COMPLETED"
    using v(2) by (simp add: D)
  show "current_track (store (fst (snd (download_tracks_batch env a (m, w)))) r) = Some ''Completed''"
    using v(4) p(7) by (simp add: D)
  show "(completed_tracks (store (fst (snd (download_tracks_batch env a (m, w)))) r),
          failed_tracks (store (fst (snd (download_tracks_batch env a (m, w)))) r),
          skipped_tracks (store (fst (snd (download_tracks_batch env a (m, w)))) r)) = fst ?L"
    using v(5-7) p(4-6) by (simp add: D L)
  show "counted (store (fst (snd (download_tracks_batch env a (m, w)))) r)
         = int (length (arg_tracks a))"
    using v(3) p(3) sm by (simp add: D)
  have "progress (store (update_job_status (snd ?u) ?jid COMPLETED None) r)
      = progress (store (snd ?u) r)"
    using j2 by (simp add: update_job_status_def)
  then show "progress (store (fst (snd (download_tracks_batch env a (m, w)))) r) = 100"
    using pf(2) by (simp add: D)
  show "jobs (fst (snd (download_tracks_batch env a (m, w)))) = jobs m"
    using v(1) p(1) o1 u(1) by (simp add: D only_job_def)
qed

lemma started_job: "get_job_status (mgr started) ''job-1'' = Some running_job"
  by code_simp

lemma cancelled_job_status:
  "get_job_status (mgr cancelled_mid_batch) ''job-1'' = Some cancelled_job"
  by code_simp

text \<open>
  C1 as stated: at every instant the three counts sum to at most the total, with
  equality once the status is Completed or Failed. The second half fails for Failed: a
  job of two tracks cancelled while its second track is being fetched is Failed with one
  track counted.
\<close>

theorem cancelled_job_below_total:
  "map_option status (get_job_status (mgr cancelled_mid_batch) ''job-1'') = Some FAILED \<and>
   map_option counted (get_job_status (mgr cancelled_mid_batch) ''job-1'') = Some 1 \<and>
   map_option total_tracks (get_job_status (mgr cancelled_mid_batch) ''job-1'') = Some 2"
  by (simp add: cancelled_job_status cancelled_job_def running_job_def counted_def)

lemma finished_run_job:
  "get_job_status (mgr (run provider_ok
      [StartDownload two_tracks, Resume 0, Resume 0, Resume 0, Resume 0, Resume 0, Resume 0]
      (init_system empty_world))) ''job-1'' = Some completed_job"
  by code_simp

text \<open>
  C1 as amended: in every state that the server, the tasks and cancellation requests can
  reach, every job of the registry has
  \<open>completed + failed + skipped \<le> total\<close>, and equality holds once its status is
  Completed.
\<close>

theorem counts_within_total:
  "get_job_status (mgr (run env evs (init_system w))) jid = Some j \<Longrightarrow>
   completed_tracks j + failed_tracks j + skipped_tracks j \<le> total_tracks j \<and>
   (status j = COMPLETED \<longrightarrow>
      completed_tracks j + failed_tracks j + skipped_tracks j = total_tracks j)"
proof -
  assume a: "get_job_status (mgr (run env evs (init_system w))) jid = Some j"
  have "sys_inv (run env evs (init_system w))"
    using run_inv [OF sys_inv_init] by blast
  from sys_inv_job [OF this a] obtain fin mc co where "co_inv j fin mc co" by blast
  from co_inv_counted [OF this] co_inv_completed [OF this] show ?thesis
    by (simp add: counted_def)
qed

theorem counts_within_total_witness:
  "get_job_status (mgr (run provider_ok
      [StartDownload two_tracks, Resume 0, Resume 0, Resume 0, Resume 0, Resume 0, Resume 0]
      (init_system empty_world))) ''job-1'' = Some completed_job \<and>
   status completed_job = COMPLETED \<and>
   completed_tracks completed_job + failed_tracks completed_job + skipped_tracks completed_job
     = total_tracks completed_job"
  using finished_run_job counts_within_total [OF finished_run_job]
  by (simp add: completed_job_def)

lemma started_unfold:
  "get_job_status (mgr (run provider_ok [StartDownload two_tracks, Resume 0, Resume 0, Resume 0]
     (init_system empty_world))) ''job-1'' = Some running_job"
  using started_job by (simp add: started_def)

lemma cancelled_later:
  "get_job_status (mgr (run provider_ok
      ([StartDownload two_tracks, Resume 0, Resume 0, Resume 0] @ [Cancel ''job-1'', Resume 0, Resume 0])
      (init_system empty_world))) ''job-1'' = Some cancelled_job"
  by code_simp

text \<open>
  C7. From any reachable state, after any further events, a job of the registry is
  still in the registry, the rank of its status (Pending, then Running, then Completed
  or Failed) has not decreased, a status that was Completed or Failed is unchanged, and a
  job that was Running is not Pending. The events are those of the program: a download
  started by the server under a new job id, a step of a task, a cancellation request.
\<close>

theorem status_moves_forward:
  "get_job_status (mgr (run env evs (init_system w))) jid = Some j \<Longrightarrow>
   \<exists>j'. get_job_status (mgr (run env (evs @ evs') (init_system w))) jid = Some j' \<and>
        status_rank (status j) \<le> status_rank (status j') \<and>
        (status j = COMPLETED \<or> status j = FAILED \<longrightarrow> status j' = status j) \<and>
        (status j = RUNNING \<longrightarrow> status j' \<noteq> PENDING)"
proof -
  assume a: "get_job_status (mgr (run env evs (init_system w))) jid = Some j"
  let ?s = "run env evs (init_system w)"
  let ?s' = "run env (evs @ evs') (init_system w)"
  have inv: "sys_inv ?s" using run_inv [OF sys_inv_init] by blast
  have mf: "moves_forward ?s ?s'"
    using run_inv [OF inv, of env evs'] by (simp add: run_append)
  from a obtain r where r: "jobs (mgr ?s) jid = Some r" and j: "j = store (mgr ?s) r"
    by (auto simp: get_job_status_def)
  from mf r have r': "jobs (mgr ?s') jid = Some r"
    and fw: "forward (status (store (mgr ?s) r)) (status (store (mgr ?s') r))"
    unfolding moves_forward_def by blast+
  have g: "get_job_status (mgr ?s') jid = Some (store (mgr ?s') r)"
    using r' by (simp add: get_job_status_def)
  have "status_rank (status j) \<le> status_rank (status (store (mgr ?s') r)) \<and>
        (status j = COMPLETED \<or> status j = FAILED \<longrightarrow> status (store (mgr ?s') r) = status j) \<and>
        (status j = RUNNING \<longrightarrow> status (store (mgr ?s') r) \<noteq> PENDING)"
    using fw j by (cases "status (store (mgr ?s') r)") (auto simp: forward_def)
  with g show ?thesis by blast
qed

theorem status_moves_forward_witness:
  "get_job_status (mgr (run provider_ok [StartDownload two_tracks, Resume 0, Resume 0, Resume 0]
     (init_system empty_world))) ''job-1'' = Some running_job \<and>
   status running_job = RUNNING \<and>
   get_job_status (mgr (run provider_ok
      ([StartDownload two_tracks, Resume 0, Resume 0, Resume 0] @ [Cancel ''job-1'', Resume 0, Resume 0])
      (init_system empty_world))) ''job-1'' = Some cancelled_job \<and>
   status_rank (status running_job) \<le> status_rank (status cancelled_job) \<and>
   status cancelled_job \<noteq> PENDING"
  using started_unfold cancelled_later
    status_moves_forward [OF started_unfold, of "[Cancel ''job-1'', Resume 0, Resume 0]"]
  by (simp add: running_job_def cancelled_job_def)

lemma registered_facts:
  "jobs registered (arg_job_id two_tracks) = Some 0"
  "total_tracks (store registered 0) = int (length (arg_tracks two_tracks))"
  "arg_tracks two_tracks \<noteq> []"
  "mkdir_fault provider_down (arg_outpath two_tracks) = None"
  by code_simp+

lemma all_failed_counts:
  "failed_tracks (store (fst (snd (download_tracks_batch provider_down two_tracks
      (registered, empty_world)))) 0) = 2"
  "completed_tracks (store (fst (snd (download_tracks_batch provider_down two_tracks
      (registered, empty_world)))) 0) = 0"
  by code_simp+

lemma cancelled_run:
  "get_job_status (mgr (run provider_ok
      [StartDownload two_tracks, Resume 0, Resume 0, Resume 0, Cancel ''job-1'']
      (init_system empty_world))) ''job-1'' = Some cancelled_job"
  by code_simp

text \<open>
  C2. A run of \<^verbatim>\<open>download_tracks_batch\<close> on a job created for its tracks (total equal to
  their number, which is not zero), once the output directory is made, raises nothing
  and leaves the job Completed with the label "Completed" and the counts that the loop
  ended with, which sum to the number of tracks, whatever the outcome of each fetch. And
  a job of the registry whose status is Failed, in any reachable state, has a task whose
  cancellation was requested.
\<close>

theorem batch_finalizes_completed:
  "(jobs m (arg_job_id a) = Some r \<and>
    total_tracks (store m r) = int (length (arg_tracks a)) \<and>
    arg_tracks a \<noteq> [] \<and> mkdir_fault env (arg_outpath a) = None \<longrightarrow>
      fst (download_tracks_batch env a (m, w)) = None \<and>
      get_job_status (fst (snd (download_tracks_batch env a (m, w)))) (arg_job_id a)
        = Some (store (fst (snd (download_tracks_batch env a (m, w)))) r) \<and>
      status (store (fst (snd (download_tracks_batch env a (m, w)))) r) = COMPLETED \<and>
      current_track (store (fst (snd (download_tracks_batch env a (m, w)))) r) = Some ''Completed'' \<and>
      (completed_tracks (store (fst (snd (download_tracks_batch env a (m, w)))) r),
       failed_tracks (store (fst (snd (download_tracks_batch env a (m, w)))) r),
       skipped_tracks (store (fst (snd (download_tracks_batch env a (m, w)))) r))
        = fst (track_loop env a (arg_tracks a) (0, 0, 0)
                (update_job_status m (arg_job_id a) RUNNING None, w)) \<and>
      counted (store (fst (snd (download_tracks_batch env a (m, w)))) r)
        = int (length (arg_tracks a))) \<and>
   (get_job_status (mgr (run env_sys evs (init_system w_sys))) jid = Some j \<and> status j = FAILED \<longrightarrow>
      (\<exists>t. job_tasks (mgr (run env_sys evs (init_system w_sys))) jid = Some t \<and>
           must_cancel (tasks (mgr (run env_sys evs (init_system w_sys))) t)))"
proof (intro conjI impI)
  assume h: "jobs m (arg_job_id a) = Some r \<and>
    total_tracks (store m r) = int (length (arg_tracks a)) \<and>
    arg_tracks a \<noteq> [] \<and> mkdir_fault env (arg_outpath a) = None"
  then have j: "jobs m (arg_job_id a) = Some r"
    and tt: "total_tracks (store m r) = int (length (arg_tracks a))"
    and ne: "arg_tracks a \<noteq> []" and mk: "mkdir_fault env (arg_outpath a) = None"
    by simp_all
  note b = batch_direct [OF j tt ne mk, of w]
  show "fst (download_tracks_batch env a (m, w)) = None" by (rule b(1))
  show "get_job_status (fst (snd (download_tracks_batch env a (m, w)))) (arg_job_id a)
        = Some (store (fst (snd (download_tracks_batch env a (m, w)))) r)"
    using b(7) j by (simp add: get_job_status_def)
  show "status (store (fst (snd (download_tracks_batch env a (m, w)))) r) = COMPLETED"
    by (rule b(2))
  show "current_track (store (fst (snd (download_tracks_batch env a (m, w)))) r) = Some ''Completed''"
    by (rule b(3))
  show "(completed_tracks (store (fst (snd (download_tracks_batch env a (m, w)))) r),
       failed_tracks (store (fst (snd (download_tracks_batch env a (m, w)))) r),
       skipped_tracks (store (fst (snd (download_tracks_batch env a (m, w)))) r))
        = fst (track_loop env a (arg_tracks a) (0, 0, 0)
                (update_job_status m (arg_job_id a) RUNNING None, w))"
    by (rule b(4))
  show "counted (store (fst (snd (download_tracks_batch env a (m, w)))) r)
        = int (length (arg_tracks a))"
    by (rule b(5))
next
  assume h: "get_job_status (mgr (run env_sys evs (init_system w_sys))) jid = Some j \<and> status j = FAILED"
  have "sys_inv (run env_sys evs (init_system w_sys))"
    using run_inv [OF sys_inv_init] by blast
  from sys_inv_job [OF this] h obtain t fin co where
    t: "job_tasks (mgr (run env_sys evs (init_system w_sys))) jid = Some t"
    and c: "co_inv j fin (must_cancel (tasks (mgr (run env_sys evs (init_system w_sys))) t)) co"
    by blast
  from co_inv_failed [OF c] h t
  show "\<exists>t. job_tasks (mgr (run env_sys evs (init_system w_sys))) jid = Some t \<and>
           must_cancel (tasks (mgr (run env_sys evs (init_system w_sys))) t)"
    by blast
qed

theorem batch_finalizes_completed_witness:
  "jobs registered (arg_job_id two_tracks) = Some 0 \<and>
   total_tracks (store registered 0) = int (length (arg_tracks two_tracks)) \<and>
   arg_tracks two_tracks \<noteq> [] \<and> mkdir_fault provider_down (arg_outpath two_tracks) = None \<and>
   fst (download_tracks_batch provider_down two_tracks (registered, empty_world)) = None \<and>
   status (store (fst (snd (download_tracks_batch provider_down two_tracks
      (registered, empty_world)))) 0) = COMPLETED \<and>
   failed_tracks (store (fst (snd (download_tracks_batch provider_down two_tracks
      (registered, empty_world)))) 0) = 2 \<and>
   completed_tracks (store (fst (snd (download_tracks_batch provider_down two_tracks
      (registered, empty_world)))) 0) = 0 \<and>
   get_job_status (mgr (run provider_ok
      [StartDownload two_tracks, Resume 0, Resume 0, Resume 0, Cancel ''job-1'']
      (init_system empty_world))) ''job-1'' = Some cancelled_job \<and>
   status cancelled_job = FAILED \<and>
   (\<exists>t. job_tasks (mgr (run provider_ok
           [StartDownload two_tracks, Resume 0, Resume 0, Resume 0, Cancel ''job-1'']
           (init_system empty_world))) ''job-1'' = Some t \<and>
        must_cancel (tasks (mgr (run provider_ok
           [StartDownload two_tracks, Resume 0, Resume 0, Resume 0, Cancel ''job-1'']
           (init_system empty_world))) t))"
proof -
  have f: "status cancelled_job = FAILED"
    by (simp add: cancelled_job_def)
  show ?thesis
    using registered_facts all_failed_counts cancelled_run f
      batch_finalizes_completed [where m = registered and a = two_tracks and r = 0
        and env = provider_down and w = empty_world and env_sys = provider_ok
        and evs = "[StartDownload two_tracks, Resume 0, Resume 0, Resume 0, Cancel ''job-1'']"
        and w_sys = empty_world and jid = "''job-1''" and j = cancelled_job]
    by simp
qed

end
